theory Spec2Isabelle
  imports Complex_Main
begin

section \<open>The porous-absorber model of \<open>porous/funcs.py\<close>\<close>

text \<open>
  The module computes the normal-incidence absorption of a rigid-backed porous layer with
  two models, \<open>DBM\<close> and \<open>JCA\<close>, which share the conversion \<open>alpha_from_dkz\<close>.

  How the Python is read here.
  \<^item> A Python \<open>float\<close> is a \<open>real\<close> and a \<open>complex\<close> a \<open>complex\<close>: the rounding of values
    and the IEEE special values are not part of this development. Where the exact value
    of an operation is not a number (a division by zero inside numpy, a negative base
    under a fractional power, the square root of a negative real) HOL still returns some
    number, so the theorems that state a formula for a returned value carry the
    hypotheses that keep the computation away from those points.
  \<^item> Whether a call returns or raises is part of this development. Python raises
    \<open>OverflowError\<close> when a power of two Python floats is too large for a float, and
    \<open>ZeroDivisionError\<close> when the divisor of two Python scalars is zero, also when that
    divisor is a product that underflows to zero. Both tests are made on the exact
    value, against the least magnitude that rounds to infinity and the greatest one that
    rounds to zero; the theorems bound their inputs well inside those limits.
  \<^item> A one-dimensional numpy array is a list. A binary operation on two arrays follows
    numpy's broadcasting rule for shapes \<open>(m,)\<close> and \<open>(n,)\<close>: equal lengths combine
    entry by entry, a length-one array is stretched, anything else raises \<open>ValueError\<close>.
  \<^item> A division or a power with a numpy array operand does not raise.
  \<^item> An exception is the \<open>Inl\<close> of a sum type.
  \<^item> \<open>x ** 2.0\<close> is the square, \<open>x ** -1\<close> the inverse, and \<open>x ** 0.5\<close> on a complex array
    the principal square root \<open>csqrt\<close>, as \<open>np.sqrt\<close> is.
  \<^item> The module-level names \<open>freq\<close>, \<open>omega\<close>, \<open>c0\<close>, \<open>rho0\<close>, \<open>z0\<close>, \<open>k0\<close> are the fields of
    a record \<open>globals\<close> that every function receives: a function that reads a global reads
    the field. The fields carry the prefix \<open>g_\<close>, those of a \<open>Fluid\<close> the prefix \<open>fl_\<close>.
\<close>

subsection \<open>Errors and arrays\<close>

datatype error = ValueError | ZeroDivisionError | OverflowError

text \<open>
  The largest float is \<open>2 ^ 1024 - 2 ^ 971\<close>; a value of magnitude \<open>2 ^ 1024 - 2 ^ 970\<close> or
  more rounds to infinity, and \<open>x ** y\<close> on Python floats then raises \<open>OverflowError\<close>. The
  least positive float is \<open>1 / 2 ^ 1074\<close>; a product of magnitude \<open>1 / 2 ^ 1075\<close> or less
  rounds to zero.
\<close>

definition overflows :: "real \<Rightarrow> bool" where
  "overflows v = (2 ^ 1024 - 2 ^ 970 \<le> \<bar>v\<bar>)"

definition rounds_to_zero :: "real \<Rightarrow> bool" where
  "rounds_to_zero v = (\<bar>v\<bar> \<le> 1 / 2 ^ 1075)"

text \<open>\<open>np.arange(start, stop, step)\<close>: \<open>ceil((stop - start) / step)\<close> entries.\<close>

definition arange :: "real \<Rightarrow> real \<Rightarrow> real \<Rightarrow> real list" where
  "arange start stop step =
     map (\<lambda>i. start + real i * step) [0..<nat \<lceil>(stop - start) / step\<rceil>]"

text \<open>A binary operation on two one-dimensional arrays, with numpy's broadcasting.\<close>

definition broadcast2 :: "('a \<Rightarrow> 'b \<Rightarrow> 'c) \<Rightarrow> 'a list \<Rightarrow> 'b list \<Rightarrow> error + 'c list" where
  "broadcast2 opr xs ys =
     (if length xs = length ys then Inr (map (\<lambda>(x, y). opr x y) (zip xs ys))
      else if length xs = 1 then Inr (map (\<lambda>y. opr (hd xs) y) ys)
      else if length ys = 1 then Inr (map (\<lambda>x. opr x (hd ys)) xs)
      else Inl ValueError)"

subsection \<open>Module-level names (lines 3 to 8)\<close>

record globals =
  g_freq :: "real list"
  g_omega :: "real list"
  g_c0 :: real
  g_rho0 :: real
  g_z0 :: real
  g_k0 :: "real list"

definition module_globals :: globals where
  "module_globals =
     (let freq = arange 50 (10 * 10 ^ 3) 10;
          omega = map (\<lambda>x. 2 * pi * x) freq;
          c0 = 343.0;
          rho0 = 1.213;
          z0 = rho0 * c0;
          k0 = map (\<lambda>w. w / c0) omega
      in \<lparr>g_freq = freq, g_omega = omega, g_c0 = c0, g_rho0 = rho0, g_z0 = z0, g_k0 = k0\<rparr>)"

subsection \<open>\<open>alpha_from_dkz\<close> (lines 11 to 15)\<close>

definition alpha_from_dkz ::
  "globals \<Rightarrow> real \<Rightarrow> complex list \<Rightarrow> complex list \<Rightarrow> error + real list" where
  "alpha_from_dkz g d k z =
     (case broadcast2 (\<lambda>a t. a / t) (map (\<lambda>x. (- \<i>) * x) z) (map (\<lambda>x. tan (x * of_real d)) k) of
        Inl e \<Rightarrow> Inl e
      | Inr zs \<Rightarrow>
          (case broadcast2 (\<lambda>a b. a / b) (map (\<lambda>x. x - of_real (g_z0 g)) zs)
                                         (map (\<lambda>x. x + of_real (g_z0 g)) zs) of
             Inl e \<Rightarrow> Inl e
           | Inr R \<Rightarrow> Inr (map (\<lambda>r. 1 - (cmod r) ^ 2) R)))"

text \<open>
  The conversion in the specification's words, for one frequency: the input impedance
  \<open>zs = -j z / tan (k d)\<close> of the layer, the reflection coefficient
  \<open>R = (zs - z0) / (zs + z0)\<close> and the absorption \<open>1 - |R|\<^sup>2\<close>.
\<close>

definition spec_zs :: "real \<Rightarrow> complex \<Rightarrow> complex \<Rightarrow> complex" where
  "spec_zs d k z = - (\<i> * z) / tan (k * of_real d)"

definition spec_R :: "real \<Rightarrow> complex \<Rightarrow> complex" where
  "spec_R z0 zs = (zs - of_real z0) / (zs + of_real z0)"

definition spec_alpha :: "real \<Rightarrow> real \<Rightarrow> complex \<Rightarrow> complex \<Rightarrow> real" where
  "spec_alpha z0 d k z = 1 - (cmod (spec_R z0 (spec_zs d k z))) ^ 2"

subsection \<open>\<open>Fluid\<close> (lines 18 to 61)\<close>

record fluid =
  fl_TK :: real
  fl_rho :: real
  fl_Eta :: real
  fl_Cp :: real
  fl_kappa :: real
  fl_co :: real
  fl_c :: real
  fl_speedOfSound :: real
  fl_density :: real
  fl_adia :: real
  fl_gamma :: real
  fl_P0 :: real
  fl_Pr :: real

text \<open>
  \<open>Fluid.__init__\<close>, statement by statement. Its arguments are Python floats, so
  \<^item> line 41 raises \<open>ZeroDivisionError\<close> when the product \<open>R * TK\<close> is zero as a float;
  \<^item> line 43 raises \<open>ZeroDivisionError\<close> when \<open>TK + C\<close> or \<open>Tref\<close> is zero, and
    \<open>OverflowError\<close> when \<open>(TK / Tref) ** 1.5\<close> is too large (not when the quotient itself
    is: an infinite base gives an infinite power and no exception);
  \<^item> lines 46 and 49 to 50 raise \<open>OverflowError\<close> when \<open>T0**2\<close>, \<open>T0**3\<close>, \<open>TK**3\<close> or
    \<open>TK**2\<close> is too large;
  \<^item> line 61 raises \<open>ZeroDivisionError\<close> when \<open>kappa\<close> is zero.
  \<open>np.sqrt\<close> on line 54 does not raise.
\<close>

definition Fluid_init ::
  "real \<Rightarrow> real \<Rightarrow> real \<Rightarrow> real \<Rightarrow> real \<Rightarrow> real \<Rightarrow> real \<Rightarrow> error + fluid" where
  "Fluid_init T0 P0 R adia Tref C Eta0 =
     (let TK = T0 + 273.15 in
      if rounds_to_zero (R * TK) then Inl ZeroDivisionError
      else
        let rho = P0 / (R * TK) in
        if TK + C = 0 \<or> Tref = 0 then Inl ZeroDivisionError
        else if \<not> overflows (TK / Tref) \<and> overflows ((TK / Tref) powr (3 / 2))
        then Inl OverflowError
        else if overflows (T0 ^ 2) \<or> overflows (T0 ^ 3) then Inl OverflowError
        else if overflows (TK ^ 3) \<or> overflows (TK ^ 2) then Inl OverflowError
        else
          let Eta = Eta0 * ((Tref + C) / (TK + C)) * (TK / Tref) powr (3 / 2);
              Cp = 10 ^ 3 * (1.0062 + 3.6028 / 10 ^ 5 * T0 - 1.0855 / 10 ^ 6 * T0 ^ 2
                             + 1.3791 / 10 ^ 8 * T0 ^ 3);
              kappa = 1.5207 / 10 ^ 11 * TK ^ 3 - 4.8574 / 10 ^ 8 * TK ^ 2
                      + 1.0184 / 10 ^ 4 * TK - 3.9333 / 10 ^ 4;
              co = sqrt (adia * (R * TK))
          in
            if kappa = 0 then Inl ZeroDivisionError
            else Inr \<lparr>fl_TK = TK, fl_rho = rho, fl_Eta = Eta, fl_Cp = Cp, fl_kappa = kappa,
                       fl_co = co, fl_c = co, fl_speedOfSound = co, fl_density = rho,
                       fl_adia = adia, fl_gamma = adia, fl_P0 = P0,
                       fl_Pr = Cp * Eta / kappa\<rparr>)"

text \<open>
  The arguments a caller gives to the constructor, positional or by keyword, after the
  defaults of lines 21 to 27 have filled in the rest.
\<close>

record fluid_args =
  arg_T0 :: real
  arg_P0 :: real
  arg_R :: real
  arg_adia :: real
  arg_Tref :: real
  arg_C :: real
  arg_Eta0 :: real

definition default_args :: fluid_args where
  "default_args =
     \<lparr>arg_T0 = 20.0, arg_P0 = 101325.0, arg_R = 287.05, arg_adia = 1.4, arg_Tref = 291.15,
      arg_C = 120.0, arg_Eta0 = 18.07 / 10 ^ 6\<rparr>"

definition Fluid :: "fluid_args \<Rightarrow> error + fluid" where
  "Fluid a =
     Fluid_init (arg_T0 a) (arg_P0 a) (arg_R a) (arg_adia a) (arg_Tref a) (arg_C a) (arg_Eta0 a)"

text \<open>\<open>Fluid()\<close>: the constructor with its default arguments.\<close>

definition Fluid_default :: "error + fluid" where
  "Fluid_default = Fluid default_args"

subsection \<open>\<open>rho_c_JCA\<close> (lines 64 to 106)\<close>

text \<open>
  The per-frequency values of \<open>G_J\<close>, \<open>rho\<close>, \<open>K\<close> and \<open>c\<close> at one entry \<open>w\<close> of \<open>omega\<close>;
  \<open>Pr\<close> is the function's own local (line 81).
\<close>

definition G_J_entry :: "fluid \<Rightarrow> real \<Rightarrow> real \<Rightarrow> real \<Rightarrow> real \<Rightarrow> real \<Rightarrow> complex" where
  "G_J_entry f phi sigma alpha v_length w =
     csqrt (1 + (4 * \<i> * of_real (alpha ^ 2) * of_real (fl_Eta f) * of_real (fl_rho f) * of_real w)
                / of_real (sigma ^ 2 * v_length ^ 2 * phi ^ 2))"

definition rho_entry :: "fluid \<Rightarrow> real \<Rightarrow> real \<Rightarrow> real \<Rightarrow> real \<Rightarrow> real \<Rightarrow> complex" where
  "rho_entry f phi sigma alpha v_length w =
     of_real (alpha * fl_rho f / phi)
     * (1 + of_real (sigma * phi) / (\<i> * of_real (fl_rho f) * of_real w * of_real alpha)
            * G_J_entry f phi sigma alpha v_length w)"

definition K_entry :: "fluid \<Rightarrow> real \<Rightarrow> real \<Rightarrow> real \<Rightarrow> real \<Rightarrow> complex" where
  "K_entry f Pr phi t_length w =
     of_real (fl_gamma f * fl_P0 f / phi)
     / (of_real (fl_gamma f)
        - of_real (fl_gamma f - 1)
          * inverse
              (1 + of_real (8 * fl_Eta f)
                   / (\<i> * of_real (t_length ^ 2) * of_real (Pr ^ 2) * of_real w * of_real (fl_rho f))
                   * csqrt (1 + \<i> * of_real (fl_rho f) * of_real (w * Pr ^ 2 * t_length ^ 2)
                                / of_real (16 * fl_Eta f))))"

definition c_entry :: "fluid \<Rightarrow> real \<Rightarrow> real \<Rightarrow> real \<Rightarrow> real \<Rightarrow> real \<Rightarrow> real \<Rightarrow> real \<Rightarrow> complex" where
  "c_entry f Pr phi sigma alpha v_length t_length w =
     csqrt (K_entry f Pr phi t_length w / rho_entry f phi sigma alpha v_length w)"

text \<open>
  The function; \<open>args\<close> are the constructor arguments that \<open>*args, **kw\<close> hand to \<open>Fluid\<close>.
  The powers \<open>alpha**2.0\<close>, \<open>sigma**2.0\<close>, \<open>v_length**2.0\<close>, \<open>phi**2.0\<close> (lines 84 and 85) and
  \<open>t_length**2.0\<close>, \<open>Pr**2.0\<close> (lines 97 and 98) are powers of Python floats and raise
  \<open>OverflowError\<close>; \<open>alpha * f.rho / phi\<close> (line 87) and \<open>(f.gamma * f.P0) / phi\<close> (line 89)
  divide Python floats and raise on \<open>phi = 0\<close>; the other operations have an array operand.
\<close>

definition rho_c_JCA ::
  "real list \<Rightarrow> real \<Rightarrow> real \<Rightarrow> real \<Rightarrow> real \<Rightarrow> real \<Rightarrow> fluid_args
     \<Rightarrow> error + (complex list \<times> complex list)" where
  "rho_c_JCA freq phi sigma alpha v_length t_length args =
     (case Fluid args of
        Inl e \<Rightarrow> Inl e
      | Inr f \<Rightarrow>
          let omega = map (\<lambda>x. 2 * pi * x) freq in
          if fl_kappa f = 0 then Inl ZeroDivisionError
          else
            let Pr = fl_Cp f * fl_Eta f / fl_kappa f in
            if overflows (alpha ^ 2) \<or> overflows (sigma ^ 2) \<or> overflows (v_length ^ 2)
               \<or> overflows (phi ^ 2)
            then Inl OverflowError
            else if phi = 0 then Inl ZeroDivisionError
            else if overflows (t_length ^ 2) \<or> overflows (Pr ^ 2) then Inl OverflowError
            else
              Inr (map (rho_entry f phi sigma alpha v_length) omega,
                   map (c_entry f Pr phi sigma alpha v_length t_length) omega))"

subsection \<open>\<open>DBM\<close> (lines 109 to 136)\<close>

text \<open>The locals \<open>z\<close> and \<open>k\<close> of the function; \<open>k\<close> multiplies the global \<open>k0\<close> into an array
  computed from \<open>f\<close>, which broadcasts.\<close>

definition DBM_z :: "globals \<Rightarrow> real list \<Rightarrow> real \<Rightarrow> complex list" where
  "DBM_z g f sigma =
     map (\<lambda>x. of_real (g_z0 g)
               * (1 + of_real (5.5 * (10 ^ 3 * x / sigma) powr (- 0.632))
                  - \<i> * of_real 8.43 * of_real ((10 ^ 3 * x / sigma) powr (- 0.632)))) f"

definition DBM_k :: "globals \<Rightarrow> real list \<Rightarrow> real \<Rightarrow> error + complex list" where
  "DBM_k g f sigma =
     broadcast2 (\<lambda>a b. of_real a * b) (g_k0 g)
       (map (\<lambda>x. 1 + of_real (7.81 * (10 ^ 3 * x / sigma) powr (- 0.618))
                  - \<i> * of_real 11.41 * of_real ((10 ^ 3 * x / sigma) powr (- 0.618))) f)"

definition DBM :: "globals \<Rightarrow> real list \<Rightarrow> real \<Rightarrow> real \<Rightarrow> error + real list" where
  "DBM g f d sigma =
     (case DBM_k g f sigma of
        Inl e \<Rightarrow> Inl e
      | Inr k \<Rightarrow> alpha_from_dkz g d k (DBM_z g f sigma))"

subsection \<open>\<open>JCA\<close> (lines 139 to 158)\<close>

text \<open>
  Line 154 passes the global \<open>freq\<close> to \<open>rho_c_JCA\<close>, and no constructor arguments, so the
  fluid is the default one; line 155 uses the parameter \<open>f\<close>.
\<close>

definition JCA ::
  "globals \<Rightarrow> real list \<Rightarrow> real \<Rightarrow> real \<Rightarrow> real \<Rightarrow> real \<Rightarrow> real \<Rightarrow> real \<Rightarrow> error + real list" where
  "JCA g f d phi sigma tort v_length t_length =
     (case rho_c_JCA (g_freq g) phi sigma tort v_length t_length default_args of
        Inl e \<Rightarrow> Inl e
      | Inr (rho, c) \<Rightarrow>
          (case broadcast2 (\<lambda>a b. of_real a / b) (map (\<lambda>x. x * pi * 2) f) c of
             Inl e \<Rightarrow> Inl e
           | Inr k \<Rightarrow>
               (case broadcast2 (\<lambda>a b. a * b) rho c of
                  Inl e \<Rightarrow> Inl e
                | Inr z \<Rightarrow> alpha_from_dkz g d k z)))"

subsection \<open>The functions as programs on the module's state\<close>

text \<open>
  To speak about effects, the bodies are written once more as programs that run in a
  state, the module's globals, and return a result or an exception together with the
  state they leave. The steps are those of the source:
  \<^item> \<open>expr e\<close> evaluates an expression that reads the globals; the arithmetic of floats and
    numpy's operations on arrays build new values and write nowhere;
  \<^item> \<open>then_py m k\<close> runs \<open>m\<close> and, unless it raised, binds its result to a local name and
    goes on with \<open>k\<close> in the state that \<open>m\<close> left: the assignment \<open>name = ...\<close> of a name that
    is local to the function (every name the four functions assign is, there is no
    \<open>global\<close> statement; \<open>Fluid.__init__\<close> assigns the attributes of the object it is
    building), and the way a call hands the state to the callee and back;
  \<^item> \<open>set_global upd\<close> would be the assignment of a module-level name or a write into a
    global array; none of the bodies has one.
\<close>

type_synonym 'a py = "globals \<Rightarrow> (error + 'a) \<times> globals"

definition expr :: "(globals \<Rightarrow> error + 'a) \<Rightarrow> 'a py" where
  "expr e = (\<lambda>g. (e g, g))"

definition then_py :: "'a py \<Rightarrow> ('a \<Rightarrow> 'b py) \<Rightarrow> 'b py" where
  "then_py m k = (\<lambda>g. case m g of (Inl e, g') \<Rightarrow> (Inl e, g') | (Inr v, g') \<Rightarrow> k v g')"

definition set_global :: "(globals \<Rightarrow> globals) \<Rightarrow> unit py" where
  "set_global upd = (\<lambda>g. (Inr (), upd g))"

text \<open>\<open>alpha_from_dkz\<close>, lines 12 to 15: \<open>zs\<close>, \<open>R\<close> and \<open>alpha\<close> are locals, \<open>z0\<close> is read.\<close>

definition alpha_from_dkz_body :: "real \<Rightarrow> complex list \<Rightarrow> complex list \<Rightarrow> real list py" where
  "alpha_from_dkz_body d k z =
     then_py (expr (\<lambda>g. broadcast2 (\<lambda>a t. a / t) (map (\<lambda>x. (- \<i>) * x) z)
                                       (map (\<lambda>x. tan (x * of_real d)) k)))
       (\<lambda>zs. then_py (expr (\<lambda>g. broadcast2 (\<lambda>a b. a / b)
                                    (map (\<lambda>x. x - of_real (g_z0 g)) zs)
                                    (map (\<lambda>x. x + of_real (g_z0 g)) zs)))
         (\<lambda>R. then_py (expr (\<lambda>g. Inr (map (\<lambda>r. 1 - (cmod r) ^ 2) R)))
           (\<lambda>alpha. expr (\<lambda>g. Inr alpha))))"

text \<open>\<open>DBM\<close>, lines 123 to 136: \<open>z\<close>, \<open>k\<close> and \<open>alpha\<close> are locals, \<open>z0\<close> and \<open>k0\<close> are read.\<close>

definition DBM_body :: "real list \<Rightarrow> real \<Rightarrow> real \<Rightarrow> real list py" where
  "DBM_body f d sigma =
     then_py (expr (\<lambda>g. Inr (DBM_z g f sigma)))
       (\<lambda>z. then_py (expr (\<lambda>g. DBM_k g f sigma))
         (\<lambda>k. then_py (alpha_from_dkz_body d k z)
           (\<lambda>alpha. expr (\<lambda>g. Inr alpha))))"



subsection \<open>The empirical model in the specification's words\<close>

text \<open>
  \<open>z(f) = z0 (1 + 5.5 X ** -0.632 - j 8.43 X ** -0.632)\<close> and
  \<open>k(f) = k0(f) (1 + 7.81 X ** -0.618 - j 11.41 X ** -0.618)\<close> with \<open>X = 1000 f / sigma\<close>
  and \<open>k0(f) = 2 \<pi> f / c0\<close>, for one frequency \<open>f\<close>.
\<close>

definition spec_DBM_z :: "real \<Rightarrow> real \<Rightarrow> real \<Rightarrow> complex" where
  "spec_DBM_z z0 sigma f =
     of_real z0 * (1 + of_real (5.5 * (1000 * f / sigma) powr (- 0.632))
                   - \<i> * of_real (8.43 * (1000 * f / sigma) powr (- 0.632)))"

definition spec_DBM_k :: "real \<Rightarrow> real \<Rightarrow> real \<Rightarrow> complex" where
  "spec_DBM_k c0 sigma f =
     of_real (2 * pi * f / c0) * (1 + of_real (7.81 * (1000 * f / sigma) powr (- 0.618))
                   - \<i> * of_real (11.41 * (1000 * f / sigma) powr (- 0.618)))"

subsection \<open>The effective-medium model in the specification's words\<close>

text \<open>
  For one angular frequency \<open>w\<close> and a fluid \<open>fl\<close>: the viscous correction \<open>G\<close>, the
  effective density, the thermal correction \<open>H\<close>, the bracket \<open>1 + 8 \<eta> / (j \<Lambda>'\<^sup>2 Pr\<^sup>2 w \<rho>) H\<close>
  (here \<open>spec_W\<close>), the bulk modulus \<open>K\<close> and the effective sound speed. \<open>Pr\<close> is the
  fluid's Prandtl number, and both roots are principal ones.
\<close>

definition spec_G :: "fluid \<Rightarrow> real \<Rightarrow> real \<Rightarrow> real \<Rightarrow> real \<Rightarrow> real \<Rightarrow> complex" where
  "spec_G fl phi sigma alpha Lam w =
     csqrt (1 + 4 * \<i> * of_real (alpha ^ 2 * fl_Eta fl * fl_rho fl * w)
                / of_real (sigma ^ 2 * Lam ^ 2 * phi ^ 2))"

definition spec_rho_eff :: "fluid \<Rightarrow> real \<Rightarrow> real \<Rightarrow> real \<Rightarrow> real \<Rightarrow> real \<Rightarrow> complex" where
  "spec_rho_eff fl phi sigma alpha Lam w =
     of_real (alpha * fl_rho fl / phi)
     * (1 + of_real (sigma * phi) / (\<i> * of_real (fl_rho fl * w * alpha))
            * spec_G fl phi sigma alpha Lam w)"

definition spec_H :: "fluid \<Rightarrow> real \<Rightarrow> real \<Rightarrow> complex" where
  "spec_H fl Lam' w =
     csqrt (1 + \<i> * of_real (fl_rho fl * w * (fl_Pr fl) ^ 2 * Lam' ^ 2) / of_real (16 * fl_Eta fl))"

definition spec_W :: "fluid \<Rightarrow> real \<Rightarrow> real \<Rightarrow> complex" where
  "spec_W fl Lam' w =
     1 + of_real (8 * fl_Eta fl) / (\<i> * of_real (Lam' ^ 2 * (fl_Pr fl) ^ 2 * w * fl_rho fl))
         * spec_H fl Lam' w"

definition spec_K :: "fluid \<Rightarrow> real \<Rightarrow> real \<Rightarrow> real \<Rightarrow> complex" where
  "spec_K fl phi Lam' w =
     of_real (fl_gamma fl * fl_P0 fl / phi)
     / (of_real (fl_gamma fl) - of_real (fl_gamma fl - 1) * inverse (spec_W fl Lam' w))"

definition spec_c_eff :: "fluid \<Rightarrow> real \<Rightarrow> real \<Rightarrow> real \<Rightarrow> real \<Rightarrow> real \<Rightarrow> real \<Rightarrow> complex" where
  "spec_c_eff fl phi sigma alpha Lam Lam' w =
     csqrt (spec_K fl phi Lam' w / spec_rho_eff fl phi sigma alpha Lam w)"

section \<open>Basic facts\<close>

subsection \<open>The limits of a float\<close>

lemma not_overflows: "\<bar>v\<bar> \<le> 10 ^ 300 \<Longrightarrow> \<not> overflows v"
proof -
  have "(10::real) ^ 300 < 2 ^ 1024 - 2 ^ 970" by simp
  then show "\<bar>v\<bar> \<le> 10 ^ 300 \<Longrightarrow> \<not> overflows v" unfolding overflows_def by linarith
qed

lemma overflows_large: "10 ^ 309 \<le> \<bar>v\<bar> \<Longrightarrow> overflows v"
proof -
  have "(2::real) ^ 1024 - 2 ^ 970 \<le> 10 ^ 309" by simp
  then show "10 ^ 309 \<le> \<bar>v\<bar> \<Longrightarrow> overflows v" unfolding overflows_def by linarith
qed

lemma not_rounds_to_zero: "1 / 10 ^ 300 \<le> \<bar>v\<bar> \<Longrightarrow> \<not> rounds_to_zero v"
proof -
  have "(1::real) / 2 ^ 1075 < 1 / 10 ^ 300" by simp
  then show "1 / 10 ^ 300 \<le> \<bar>v\<bar> \<Longrightarrow> \<not> rounds_to_zero v"
    unfolding rounds_to_zero_def by linarith
qed

lemma rounds_to_zero_0: "rounds_to_zero 0"
  by (simp add: rounds_to_zero_def)

lemma not_overflows_power:
  assumes "\<bar>x\<bar> \<le> 10 ^ 100" and "n \<le> 3"
  shows "\<not> overflows (x ^ n)"
proof (rule not_overflows)
  have "\<bar>x ^ n\<bar> = \<bar>x\<bar> ^ n" by (rule power_abs)
  also have "\<dots> \<le> (10 ^ 100) ^ n" using assms(1) by (intro power_mono) simp_all
  also have "\<dots> = 10 ^ (100 * n)" by (simp add: power_mult)
  also have "\<dots> \<le> (10::real) ^ 300" using assms(2) by (intro power_increasing) simp_all
  finally show "\<bar>x ^ n\<bar> \<le> 10 ^ 300" .
qed

lemma not_overflows_square: "\<bar>x\<bar> \<le> 10 ^ 100 \<Longrightarrow> \<not> overflows (x ^ 2)"
  by (rule not_overflows_power) simp_all

subsection \<open>Broadcasting\<close>

lemma broadcast2_same:
  "length xs = length ys \<Longrightarrow>
   broadcast2 opr xs ys = Inr (map (\<lambda>(x, y). opr x y) (zip xs ys))"
  by (simp add: broadcast2_def)

lemma broadcast2_ValueError:
  "length xs \<noteq> length ys \<Longrightarrow> length xs \<noteq> 1 \<Longrightarrow> length ys \<noteq> 1 \<Longrightarrow>
   broadcast2 opr xs ys = Inl ValueError"
  by (simp add: broadcast2_def)

lemma map2_same: "map (\<lambda>(x, y). h x y) (zip (map p xs) (map q xs)) = map (\<lambda>x. h (p x) (q x)) xs"
  by (induction xs) simp_all

subsection \<open>The module's globals\<close>

lemma module_globals_simps:
  "length (g_freq module_globals) = 995"
  "length (g_k0 module_globals) = 995"
  "length (g_omega module_globals) = 995"
  "g_c0 module_globals = 343"
  "g_rho0 module_globals = 1.213"
  "g_z0 module_globals = 1.213 * 343"
  by (simp_all add: module_globals_def Let_def arange_def)

lemma k0_first: "g_k0 module_globals ! 0 = 2 * pi * 50 / 343"
  by (simp add: module_globals_def Let_def arange_def)

lemma omega_module_globals:
  "g_omega module_globals = map (\<lambda>x. 2 * pi * x) (g_freq module_globals)"
  by (simp add: module_globals_def Let_def)

lemma omega_first: "g_omega module_globals ! 0 = 2 * pi * 50"
  by (simp add: module_globals_def Let_def arange_def)

subsection \<open>When the constructor returns\<close>

lemma powr_three_halves_le:
  assumes "0 \<le> (x::real)" and "x \<le> B" and "1 \<le> B"
  shows "x powr (3 / 2) \<le> B ^ 2"
proof (cases "x \<le> 1")
  case True
  then have "x powr (3 / 2) \<le> 1" using assms(1) by (intro powr_le1) simp_all
  also have "\<dots> \<le> B ^ 2" using assms(3) by simp
  finally show ?thesis .
next
  case False
  then have x: "1 \<le> x" by simp
  then have "x powr (3 / 2) \<le> x powr 2" by (intro powr_mono) simp_all
  also have "\<dots> = x ^ 2" using x by simp
  also have "\<dots> \<le> B ^ 2" using assms(1,2) by (intro power_mono) simp_all
  finally show ?thesis .
qed

lemma kappa_lower:
  assumes "100 \<le> (TK::real)"
  shows "1 / 200 \<le> 1.5207 / 10 ^ 11 * TK ^ 3 - 4.8574 / 10 ^ 8 * TK ^ 2
                      + 1.0184 / 10 ^ 4 * TK - 3.9333 / 10 ^ 4"
proof -
  let ?q = "1.5207 / 10 ^ 11 * (TK - 1600) ^ 2 + 8.84 / 10 ^ 11 * TK + 6.291008 / 10 ^ 5"
  have id: "1.5207 / 10 ^ 11 * TK ^ 3 - 4.8574 / 10 ^ 8 * TK ^ 2
                      + 1.0184 / 10 ^ 4 * TK - 3.9333 / 10 ^ 4 = TK * ?q - 3.9333 / 10 ^ 4"
    by (simp add: power2_eq_square power3_eq_cube field_simps)
  have "0 \<le> 1.5207 / 10 ^ 11 * (TK - 1600) ^ 2" by simp
  moreover have "0 \<le> 8.84 / 10 ^ 11 * TK" using assms by simp
  ultimately have q: "6.291008 / 10 ^ 5 \<le> ?q" by linarith
  have "100 * (6.291008 / 10 ^ 5) \<le> TK * ?q"
    using assms q by (intro mult_mono) simp_all
  then show ?thesis unfolding id by simp
qed

lemma Fluid_init_returns:
  assumes "100 \<le> T0 + 273.15" and "T0 \<le> 10 ^ 30"
    and "1 / 10 ^ 30 \<le> Tref" and "Tref \<le> 10 ^ 30" and "0 \<le> C"
    and "1 / 10 ^ 30 \<le> R" and "R \<le> 10 ^ 30"
  shows "Fluid_init T0 P0 R adia Tref C Eta0 =
     Inr \<lparr>fl_TK = T0 + 273.15, fl_rho = P0 / (R * (T0 + 273.15)),
          fl_Eta = Eta0 * ((Tref + C) / (T0 + 273.15 + C)) * ((T0 + 273.15) / Tref) powr (3 / 2),
          fl_Cp = 10 ^ 3 * (1.0062 + 3.6028 / 10 ^ 5 * T0 - 1.0855 / 10 ^ 6 * T0 ^ 2
                             + 1.3791 / 10 ^ 8 * T0 ^ 3),
          fl_kappa = 1.5207 / 10 ^ 11 * (T0 + 273.15) ^ 3 - 4.8574 / 10 ^ 8 * (T0 + 273.15) ^ 2
                      + 1.0184 / 10 ^ 4 * (T0 + 273.15) - 3.9333 / 10 ^ 4,
          fl_co = sqrt (adia * (R * (T0 + 273.15))),
          fl_c = sqrt (adia * (R * (T0 + 273.15))),
          fl_speedOfSound = sqrt (adia * (R * (T0 + 273.15))),
          fl_density = P0 / (R * (T0 + 273.15)),
          fl_adia = adia, fl_gamma = adia, fl_P0 = P0,
          fl_Pr = 10 ^ 3 * (1.0062 + 3.6028 / 10 ^ 5 * T0 - 1.0855 / 10 ^ 6 * T0 ^ 2
                             + 1.3791 / 10 ^ 8 * T0 ^ 3)
                  * (Eta0 * ((Tref + C) / (T0 + 273.15 + C)) * ((T0 + 273.15) / Tref) powr (3 / 2))
                  / (1.5207 / 10 ^ 11 * (T0 + 273.15) ^ 3 - 4.8574 / 10 ^ 8 * (T0 + 273.15) ^ 2
                      + 1.0184 / 10 ^ 4 * (T0 + 273.15) - 3.9333 / 10 ^ 4)\<rparr>"
proof -
  let ?TK = "T0 + 273.15"
  have TK: "100 \<le> ?TK" "?TK \<le> 10 ^ 31" using assms(1,2) by simp_all
  have Tref: "0 < Tref" using assms(3) by (rule less_le_trans [rotated]) simp
  have R: "0 < R" using assms(6) by (rule less_le_trans [rotated]) simp
  have "1 / 10 ^ 30 * 100 \<le> R * ?TK"
    using assms(6) TK(1) by (intro mult_mono) simp_all
  then have "1 / 10 ^ 300 \<le> \<bar>R * ?TK\<bar>" by simp
  then have c1: "rounds_to_zero (R * ?TK) = False" using not_rounds_to_zero by simp
  have c2: "(?TK + C = 0 \<or> Tref = 0) = False" using TK(1) assms(5) Tref by simp
  have q0: "0 \<le> ?TK / Tref" using TK(1) Tref by simp
  have "?TK / Tref \<le> 10 ^ 31 / (1 / 10 ^ 30)"
    using TK assms(3) by (intro frac_le) simp_all
  then have q1: "?TK / Tref \<le> 10 ^ 61" by simp
  have "(?TK / Tref) powr (3 / 2) \<le> (10 ^ 61) ^ 2"
    using q0 q1 by (rule powr_three_halves_le) simp
  moreover have "0 \<le> (?TK / Tref) powr (3 / 2)" by simp
  ultimately have "\<bar>(?TK / Tref) powr (3 / 2)\<bar> \<le> 10 ^ 300" by simp
  then have "\<not> overflows ((?TK / Tref) powr (3 / 2))" by (rule not_overflows)
  then have c3: "(\<not> overflows (?TK / Tref) \<and> overflows ((?TK / Tref) powr (3 / 2))) = False"
    by simp
  have T0: "\<bar>T0\<bar> \<le> 10 ^ 100" using assms(1,2) by (simp add: abs_le_iff)
  have c4: "(overflows (T0 ^ 2) \<or> overflows (T0 ^ 3)) = False"
    using not_overflows_power [OF T0, of 2] not_overflows_power [OF T0, of 3] by simp
  have TK': "\<bar>?TK\<bar> \<le> 10 ^ 100" using TK by (simp add: abs_le_iff)
  have c5: "(overflows (?TK ^ 3) \<or> overflows (?TK ^ 2)) = False"
    using not_overflows_power [OF TK', of 2] not_overflows_power [OF TK', of 3] by simp
  have "1 / 200 \<le> 1.5207 / 10 ^ 11 * ?TK ^ 3 - 4.8574 / 10 ^ 8 * ?TK ^ 2
                      + 1.0184 / 10 ^ 4 * ?TK - 3.9333 / 10 ^ 4"
    using TK(1) by (rule kappa_lower)
  then have "1.5207 / 10 ^ 11 * ?TK ^ 3 - 4.8574 / 10 ^ 8 * ?TK ^ 2
                      + 1.0184 / 10 ^ 4 * ?TK - 3.9333 / 10 ^ 4 \<noteq> 0"
    by linarith
  then have c6: "(1.5207 / 10 ^ 11 * ?TK ^ 3 - 4.8574 / 10 ^ 8 * ?TK ^ 2
                      + 1.0184 / 10 ^ 4 * ?TK - 3.9333 / 10 ^ 4 = 0) = False"
    by blast
  show ?thesis
    unfolding Fluid_init_def Let_def c1 c2 c3 c4 c5 c6 if_False by (rule refl)
qed

lemma Fluid_init_Inr_fields:
  assumes "Fluid_init T0 P0 R adia Tref C Eta0 = Inr fl"
  shows "fl_kappa fl \<noteq> 0" and "fl_Pr fl = fl_Cp fl * fl_Eta fl / fl_kappa fl"
    and "fl_TK fl = T0 + 273.15" and "fl_rho fl = P0 / (R * (T0 + 273.15))"
    and "fl_gamma fl = adia" and "fl_P0 fl = P0"
    and "fl_Eta fl = Eta0 * ((Tref + C) / (T0 + 273.15 + C)) * ((T0 + 273.15) / Tref) powr (3 / 2)"
  using assms unfolding Fluid_init_def Let_def
  by (auto split: if_splits)

subsection \<open>The default fluid\<close>

lemma default_powr_bounds:
  "0 < ((20 + 273.15) / 291.15 :: real) powr (3 / 2)"
  "((20 + 273.15) / 291.15 :: real) powr (3 / 2) \<le> 4"
proof -
  show "0 < ((20 + 273.15) / 291.15 :: real) powr (3 / 2)" by simp
  have "((20 + 273.15) / 291.15 :: real) powr (3 / 2) \<le> 2 ^ 2"
    by (rule powr_three_halves_le) simp_all
  then show "((20 + 273.15) / 291.15 :: real) powr (3 / 2) \<le> 4" by simp
qed

lemma Fluid_default_props:
  "\<exists>fl. Fluid_default = Inr fl \<and> fl_TK fl = 293.15
     \<and> fl_rho fl = 101325 / (287.05 * 293.15)
     \<and> fl_co fl = sqrt (1.4 * (287.05 * 293.15))
     \<and> 0 < fl_Eta fl \<and> fl_Eta fl \<le> 1
     \<and> 1 / 200 \<le> fl_kappa fl
     \<and> 0 < fl_Cp fl \<and> fl_Cp fl \<le> 2000
     \<and> fl_gamma fl = 1.4 \<and> fl_P0 fl = 101325
     \<and> fl_Pr fl = fl_Cp fl * fl_Eta fl / fl_kappa fl"
proof -
  define p :: real where "p = ((20 + 273.15) / 291.15) powr (3 / 2)"
  have p: "0 < p" "p \<le> 4" unfolding p_def by (rule default_powr_bounds)+
  have k: "1 / 200 \<le> 1.5207 / 10 ^ 11 * ((20::real) + 273.15) ^ 3 - 4.8574 / 10 ^ 8 * (20 + 273.15) ^ 2
                      + 1.0184 / 10 ^ 4 * (20 + 273.15) - 3.9333 / 10 ^ 4"
    by (rule kappa_lower) simp
  have F: "Fluid_init 20.0 101325.0 287.05 1.4 291.15 120.0 (18.07 / 10 ^ 6) = Inr
     \<lparr>fl_TK = 20.0 + 273.15, fl_rho = 101325.0 / (287.05 * (20.0 + 273.15)),
          fl_Eta = 18.07 / 10 ^ 6 * ((291.15 + 120.0) / (20.0 + 273.15 + 120.0)) * ((20.0 + 273.15) / 291.15) powr (3 / 2),
          fl_Cp = 10 ^ 3 * (1.0062 + 3.6028 / 10 ^ 5 * 20.0 - 1.0855 / 10 ^ 6 * 20.0 ^ 2
                             + 1.3791 / 10 ^ 8 * 20.0 ^ 3),
          fl_kappa = 1.5207 / 10 ^ 11 * (20.0 + 273.15) ^ 3 - 4.8574 / 10 ^ 8 * (20.0 + 273.15) ^ 2
                      + 1.0184 / 10 ^ 4 * (20.0 + 273.15) - 3.9333 / 10 ^ 4,
          fl_co = sqrt (1.4 * (287.05 * (20.0 + 273.15))),
          fl_c = sqrt (1.4 * (287.05 * (20.0 + 273.15))),
          fl_speedOfSound = sqrt (1.4 * (287.05 * (20.0 + 273.15))),
          fl_density = 101325.0 / (287.05 * (20.0 + 273.15)),
          fl_adia = 1.4, fl_gamma = 1.4, fl_P0 = 101325.0,
          fl_Pr = 10 ^ 3 * (1.0062 + 3.6028 / 10 ^ 5 * 20.0 - 1.0855 / 10 ^ 6 * 20.0 ^ 2
                             + 1.3791 / 10 ^ 8 * 20.0 ^ 3)
                  * (18.07 / 10 ^ 6 * ((291.15 + 120.0) / (20.0 + 273.15 + 120.0)) * ((20.0 + 273.15) / 291.15) powr (3 / 2))
                  / (1.5207 / 10 ^ 11 * (20.0 + 273.15) ^ 3 - 4.8574 / 10 ^ 8 * (20.0 + 273.15) ^ 2
                      + 1.0184 / 10 ^ 4 * (20.0 + 273.15) - 3.9333 / 10 ^ 4)\<rparr>"
    (is "_ = Inr ?fl")
    by (rule Fluid_init_returns) simp_all
  have D: "Fluid_default = Inr ?fl"
    unfolding Fluid_default_def Fluid_def default_args_def fluid_args.select_convs by (rule F)
  have eta: "fl_Eta ?fl = 18.07 / 10 ^ 6 * ((291.15 + 120.0) / (20.0 + 273.15 + 120.0)) * p"
    unfolding p_def by simp
  have e1: "0 < fl_Eta ?fl" unfolding eta using p(1) by simp
  have "18.07 / 10 ^ 6 * ((291.15 + 120.0) / (20.0 + 273.15 + 120.0)) * p
          \<le> 18.07 / 10 ^ 6 * ((291.15 + 120.0) / (20.0 + 273.15 + 120.0)) * 4"
    using p(2) by (intro mult_left_mono) simp_all
  then have e2: "fl_Eta ?fl \<le> 1" unfolding eta by simp
  have kk: "1 / 200 \<le> fl_kappa ?fl" using k by simp
  show ?thesis
  proof (intro exI [of _ ?fl] conjI)
    show "Fluid_default = Inr ?fl" by (rule D)
    show "fl_TK ?fl = 293.15" by simp
    show "fl_rho ?fl = 101325 / (287.05 * 293.15)" by simp
    show "fl_co ?fl = sqrt (1.4 * (287.05 * 293.15))" by simp
    show "0 < fl_Eta ?fl" by (rule e1)
    show "fl_Eta ?fl \<le> 1" by (rule e2)
    show "1 / 200 \<le> fl_kappa ?fl" by (rule kk)
    show "0 < fl_Cp ?fl" by simp
    show "fl_Cp ?fl \<le> 2000" by simp
    show "fl_gamma ?fl = 1.4" by simp
    show "fl_P0 ?fl = 101325" by simp
    show "fl_Pr ?fl = fl_Cp ?fl * fl_Eta ?fl / fl_kappa ?fl" by (simp only: fluid.select_convs)
  qed
qed

lemma Fluid_default_obtain:
  obtains fl where "Fluid default_args = Inr fl" "0 < fl_Pr fl" "fl_Pr fl \<le> 10 ^ 6"
    "0 < fl_rho fl" "0 < fl_Eta fl" "fl_gamma fl = 1.4"
proof -
  obtain fl where fl: "Fluid_default = Inr fl" "0 < fl_Eta fl" "fl_Eta fl \<le> 1"
     "1 / 200 \<le> fl_kappa fl" "0 < fl_Cp fl" "fl_Cp fl \<le> 2000"
     "fl_Pr fl = fl_Cp fl * fl_Eta fl / fl_kappa fl" "fl_rho fl = 101325 / (287.05 * 293.15)"
     "fl_gamma fl = 1.4"
    using Fluid_default_props by blast
  have kp: "0 < fl_kappa fl" using fl(4) by (rule less_le_trans [rotated]) simp
  have p0: "0 < fl_Pr fl" unfolding fl(7) using fl(2,5) kp by simp
  have "fl_Cp fl * fl_Eta fl \<le> 2000 * 1"
    using fl(2,3,5,6) by (intro mult_mono) simp_all
  then have "fl_Cp fl * fl_Eta fl / fl_kappa fl \<le> 2000 / (1 / 200)"
    using fl(2,4,5) by (intro frac_le) simp_all
  then have p1: "fl_Pr fl \<le> 10 ^ 6" unfolding fl(7) by simp
  have r: "0 < fl_rho fl" unfolding fl(8) by simp
  show ?thesis
    using that [OF fl(1) [unfolded Fluid_default_def] p0 p1 r fl(2) fl(9)] .
qed

lemma sqrt_default_bounds:
  "343 \<le> sqrt (1.4 * (287.05 * 293.15))" "sqrt (1.4 * (287.05 * 293.15)) \<le> 343.343"
proof -
  show "343 \<le> sqrt (1.4 * (287.05 * 293.15))"
    by (rule real_le_rsqrt) (simp add: power2_eq_square)
  show "sqrt (1.4 * (287.05 * 293.15)) \<le> 343.343"
    by (rule real_le_lsqrt) (simp_all add: power2_eq_square)
qed

subsection \<open>When \<open>rho_c_JCA\<close> returns and when it raises\<close>

lemma rho_c_JCA_returns:
  assumes fl: "Fluid args = Inr fl"
    and "phi \<noteq> 0" and "\<bar>phi\<bar> \<le> 10 ^ 100" and "\<bar>sigma\<bar> \<le> 10 ^ 100" and "\<bar>alpha\<bar> \<le> 10 ^ 100"
    and "\<bar>v_length\<bar> \<le> 10 ^ 100" and "\<bar>t_length\<bar> \<le> 10 ^ 100" and "\<bar>fl_Pr fl\<bar> \<le> 10 ^ 100"
  shows "rho_c_JCA freq phi sigma alpha v_length t_length args =
           Inr (map (rho_entry fl phi sigma alpha v_length) (map (\<lambda>x. 2 * pi * x) freq),
                map (c_entry fl (fl_Pr fl) phi sigma alpha v_length t_length)
                    (map (\<lambda>x. 2 * pi * x) freq))"
proof -
  have k: "fl_kappa fl \<noteq> 0" and Pr: "fl_Cp fl * fl_Eta fl / fl_kappa fl = fl_Pr fl"
    using Fluid_init_Inr_fields(1,2) [OF fl [unfolded Fluid_def]] by simp_all
  have o1: "\<not> overflows (alpha ^ 2)" "\<not> overflows (sigma ^ 2)" "\<not> overflows (v_length ^ 2)"
    "\<not> overflows (phi ^ 2)" "\<not> overflows (t_length ^ 2)" "\<not> overflows ((fl_Pr fl) ^ 2)"
    by (rule not_overflows_square, rule assms)+
  show ?thesis
    unfolding rho_c_JCA_def fl sum.case Let_def Pr using k o1 assms(2) by simp
qed

lemma rho_c_JCA_phi0:
  assumes fl: "Fluid args = Inr fl"
    and "\<bar>sigma\<bar> \<le> 10 ^ 100" and "\<bar>alpha\<bar> \<le> 10 ^ 100" and "\<bar>v_length\<bar> \<le> 10 ^ 100"
  shows "rho_c_JCA freq 0 sigma alpha v_length t_length args = Inl ZeroDivisionError"
proof -
  have k: "fl_kappa fl \<noteq> 0"
    using Fluid_init_Inr_fields(1) [OF fl [unfolded Fluid_def]] .
  have z: "\<bar>0::real\<bar> \<le> 10 ^ 100" by simp
  have o1: "\<not> overflows (alpha ^ 2)" "\<not> overflows (sigma ^ 2)" "\<not> overflows (v_length ^ 2)"
    "\<not> overflows ((0::real) ^ 2)"
    by (rule not_overflows_square, rule assms z)+
  show ?thesis
    unfolding rho_c_JCA_def fl sum.case Let_def using k o1 by (simp del: power_zero_numeral)
qed

lemma rho_c_JCA_overflow:
  assumes fl: "Fluid args = Inr fl" and "10 ^ 155 \<le> \<bar>sigma\<bar>"
  shows "rho_c_JCA freq phi sigma alpha v_length t_length args = Inl OverflowError"
proof -
  have k: "fl_kappa fl \<noteq> 0"
    using Fluid_init_Inr_fields(1) [OF fl [unfolded Fluid_def]] .
  have "(10 ^ 155) ^ 2 \<le> \<bar>sigma\<bar> ^ 2" using assms(2) by (intro power_mono) simp_all
  then have "10 ^ 309 \<le> \<bar>sigma ^ 2\<bar>" by (simp add: power_abs del: power2_abs abs_power2)
  then have "overflows (sigma ^ 2)" by (rule overflows_large)
  then show ?thesis
    unfolding rho_c_JCA_def fl sum.case Let_def using k by simp
qed

lemma rho_c_JCA_length:
  assumes "rho_c_JCA freq phi sigma alpha v_length t_length args = Inr (rho, c)"
  shows "length rho = length freq \<and> length c = length freq"
  using assms by (auto simp add: rho_c_JCA_def Let_def split: sum.splits if_splits)

subsection \<open>Values of the tangent\<close>

lemma tan_pi4_complex: "tan (complex_of_real pi / 4) = 1"
proof -
  have "tan (complex_of_real (pi / 4)) = complex_of_real (tan (pi / 4))"
    by (rule tan_of_real [symmetric])
  then show ?thesis by (simp add: tan_45)
qed

lemma sin_cos_pi4_complex:
  "sin (complex_of_real pi / 4) \<noteq> 0" "cos (complex_of_real pi / 4) \<noteq> 0"
proof -
  have e: "complex_of_real pi / 4 = complex_of_real (pi / 4)" by simp
  have "sin (pi / 4) > (0::real)" by (rule sin_gt_zero) simp_all
  then have "complex_of_real (sin (pi / 4)) \<noteq> 0" by simp
  then show "sin (complex_of_real pi / 4) \<noteq> 0" unfolding e sin_of_real .
  have "cos (pi / 4) > (0::real)" by (rule cos_gt_zero_pi) simp_all
  then have "complex_of_real (cos (pi / 4)) \<noteq> 0" by simp
  then show "cos (complex_of_real pi / 4) \<noteq> 0" unfolding e cos_of_real .
qed

lemma alpha_from_dkz_nonpassive:
  "alpha_from_dkz module_globals 1 [complex_of_real pi / 4] [- \<i>]
     = Inr [1 - (417.059 / 415.059) ^ 2]"
  by (simp add: alpha_from_dkz_def broadcast2_def module_globals_simps tan_pi4_complex)

subsection \<open>The conversion on arrays of equal length\<close>

lemma alpha_from_dkz_same_length:
  assumes "length k = length z"
  shows "alpha_from_dkz g d k z =
           Inr (map (\<lambda>i. spec_alpha (g_z0 g) d (k ! i) (z ! i)) [0..<length k])"
proof -
  let ?zs = "map (\<lambda>i. spec_zs d (k ! i) (z ! i)) [0..<length k]"
  have zs: "broadcast2 (\<lambda>a t. a / t) (map (\<lambda>x. (- \<i>) * x) z)
              (map (\<lambda>x. tan (x * of_real d)) k) = Inr ?zs"
  proof -
    have "map (\<lambda>(x, y). x / y)
            (zip (map (\<lambda>x. (- \<i>) * x) z) (map (\<lambda>x. tan (x * of_real d)) k)) = ?zs"
      using assms by (intro nth_equalityI) (simp_all add: spec_zs_def)
    then show ?thesis using assms by (simp add: broadcast2_same)
  qed
  have R: "broadcast2 (\<lambda>a b. a / b) (map (\<lambda>x. x - of_real (g_z0 g)) ?zs)
              (map (\<lambda>x. x + of_real (g_z0 g)) ?zs)
           = Inr (map (\<lambda>i. spec_R (g_z0 g) (spec_zs d (k ! i) (z ! i))) [0..<length k])"
  proof -
    have "map (\<lambda>(x, y). x / y)
            (zip (map (\<lambda>x. x - of_real (g_z0 g)) ?zs) (map (\<lambda>x. x + of_real (g_z0 g)) ?zs))
          = map (\<lambda>i. spec_R (g_z0 g) (spec_zs d (k ! i) (z ! i))) [0..<length k]"
      by (intro nth_equalityI) (simp_all add: spec_R_def)
    then show ?thesis by (simp add: broadcast2_same)
  qed
  show ?thesis
    unfolding alpha_from_dkz_def zs sum.case R
    by (simp add: spec_alpha_def comp_def)
qed

lemma alpha_from_dkz_returns:
  "length k = length z \<Longrightarrow> \<exists>a. alpha_from_dkz g d k z = Inr a \<and> length a = length k"
  using alpha_from_dkz_same_length [of k z g d] by simp

subsection \<open>The factor of the empirical wavenumber\<close>

lemma complex_one_plus_nonzero:
  assumes "0 \<le> a"
  shows "1 + complex_of_real a - \<i> * of_real b \<noteq> 0"
proof
  assume e: "1 + complex_of_real a - \<i> * of_real b = 0"
  have "Re (1 + complex_of_real a - \<i> * of_real b) = 1 + a" by simp
  moreover have "Re (1 + complex_of_real a - \<i> * of_real b) = 0" unfolding e by simp
  ultimately show False using assms by linarith
qed

lemma DBM_factor_nonzero:
  "1 + complex_of_real (7.81 * x powr (- 0.618)) - \<i> * of_real (11.41 * x powr (- 0.618)) \<noteq> 0"
  by (rule complex_one_plus_nonzero) simp

subsection \<open>The code's per-frequency values are the specification's\<close>

lemma G_J_entry_spec: "G_J_entry fl phi sigma alpha Lam w = spec_G fl phi sigma alpha Lam w"
  by (simp add: G_J_entry_def spec_G_def mult.assoc)

lemma rho_entry_spec: "rho_entry fl phi sigma alpha Lam w = spec_rho_eff fl phi sigma alpha Lam w"
  by (simp add: rho_entry_def spec_rho_eff_def G_J_entry_spec mult.assoc)

lemma K_entry_spec: "K_entry fl (fl_Pr fl) phi Lam' w = spec_K fl phi Lam' w"
  by (simp add: K_entry_def spec_K_def spec_W_def spec_H_def mult.assoc)

lemma c_entry_spec:
  "c_entry fl (fl_Pr fl) phi sigma alpha Lam Lam' w = spec_c_eff fl phi sigma alpha Lam Lam' w"
  by (simp add: c_entry_def spec_c_eff_def K_entry_spec rho_entry_spec)

subsection \<open>Signs in the two corrections\<close>

lemma Im_csqrt_nonneg: "0 \<le> Im z \<Longrightarrow> 0 \<le> Im (csqrt z)"
  by (simp add: complex_Re_le_cmod)

lemma over_i_of_real: "complex_of_real a / (\<i> * of_real b) = - \<i> * of_real (a / b)"
proof -
  have "complex_of_real a / (\<i> * of_real b) = complex_of_real a / \<i> / of_real b"
    by (rule divide_divide_eq_left [symmetric])
  also have "\<dots> = - \<i> * complex_of_real a / of_real b"
    by (simp only: divide_i)
  finally show ?thesis by simp
qed

lemma Re_one_plus_over_i:
  "Re (1 + of_real a / (\<i> * of_real b) * G) = 1 + a / b * Im G"
  unfolding over_i_of_real by simp

lemma Re_ge_1_nonzero: "1 \<le> Re z \<Longrightarrow> z \<noteq> 0"
  by auto

lemma spec_G_Im:
  assumes "0 \<le> fl_Eta fl" "0 \<le> fl_rho fl" "0 \<le> w"
  shows "0 \<le> Im (spec_G fl phi sigma alpha Lam w)"
  unfolding spec_G_def
proof (rule Im_csqrt_nonneg)
  have "Im (1 + 4 * \<i> * complex_of_real (alpha ^ 2 * fl_Eta fl * fl_rho fl * w)
                / of_real (sigma ^ 2 * Lam ^ 2 * phi ^ 2))
        = 4 * (alpha ^ 2 * fl_Eta fl * fl_rho fl * w) / (sigma ^ 2 * Lam ^ 2 * phi ^ 2)"
    by simp
  moreover have "0 \<le> 4 * (alpha ^ 2 * fl_Eta fl * fl_rho fl * w) / (sigma ^ 2 * Lam ^ 2 * phi ^ 2)"
    using assms by simp
  ultimately show "0 \<le> Im (1 + 4 * \<i> * complex_of_real (alpha ^ 2 * fl_Eta fl * fl_rho fl * w)
                / of_real (sigma ^ 2 * Lam ^ 2 * phi ^ 2))"
    by simp
qed

lemma spec_H_Im:
  assumes "0 \<le> fl_Eta fl" "0 \<le> fl_rho fl" "0 \<le> w"
  shows "0 \<le> Im (spec_H fl Lam' w)"
  unfolding spec_H_def
proof (rule Im_csqrt_nonneg)
  have "Im (1 + \<i> * complex_of_real (fl_rho fl * w * (fl_Pr fl) ^ 2 * Lam' ^ 2) / of_real (16 * fl_Eta fl))
        = (fl_rho fl * w * (fl_Pr fl) ^ 2 * Lam' ^ 2) / (16 * fl_Eta fl)"
    by simp
  moreover have "0 \<le> (fl_rho fl * w * (fl_Pr fl) ^ 2 * Lam' ^ 2) / (16 * fl_Eta fl)"
    using assms by simp
  ultimately show "0 \<le> Im (1 + \<i> * complex_of_real (fl_rho fl * w * (fl_Pr fl) ^ 2 * Lam' ^ 2)
       / of_real (16 * fl_Eta fl))"
    by simp
qed

lemma spec_rho_eff_nonzero:
  assumes "0 < fl_Eta fl" "0 < fl_rho fl" "0 < w" "0 < phi" "0 < sigma" "0 < alpha"
  shows "spec_rho_eff fl phi sigma alpha Lam w \<noteq> 0"
proof -
  let ?G = "spec_G fl phi sigma alpha Lam w"
  let ?B = "1 + complex_of_real (sigma * phi) / (\<i> * of_real (fl_rho fl * w * alpha)) * ?G"
  have G: "0 \<le> Im ?G" using assms by (intro spec_G_Im) simp_all
  have "Re ?B = 1 + sigma * phi / (fl_rho fl * w * alpha) * Im ?G"
    by (rule Re_one_plus_over_i)
  moreover have "0 \<le> sigma * phi / (fl_rho fl * w * alpha) * Im ?G"
    using assms G by (intro mult_nonneg_nonneg divide_nonneg_nonneg) simp_all
  ultimately have "1 \<le> Re ?B" by linarith
  then have "?B \<noteq> 0" by (rule Re_ge_1_nonzero)
  moreover have "complex_of_real (alpha * fl_rho fl / phi) \<noteq> 0" using assms by simp
  ultimately show ?thesis unfolding spec_rho_eff_def by simp
qed

lemma spec_W_Re:
  assumes "0 < fl_Eta fl" "0 < fl_rho fl" "0 < w"
  shows "1 \<le> Re (spec_W fl Lam' w)"
proof -
  let ?H = "spec_H fl Lam' w"
  have H: "0 \<le> Im ?H" using assms by (intro spec_H_Im) simp_all
  have "Re (spec_W fl Lam' w)
          = 1 + 8 * fl_Eta fl / (Lam' ^ 2 * (fl_Pr fl) ^ 2 * w * fl_rho fl) * Im ?H"
    unfolding spec_W_def by (rule Re_one_plus_over_i)
  moreover have "0 \<le> 8 * fl_Eta fl / (Lam' ^ 2 * (fl_Pr fl) ^ 2 * w * fl_rho fl) * Im ?H"
    using assms H by (intro mult_nonneg_nonneg divide_nonneg_nonneg) simp_all
  ultimately show ?thesis by linarith
qed

lemma spec_K_denominator_nonzero:
  assumes "1 \<le> Re W" "1 < gam"
  shows "complex_of_real gam - of_real (gam - 1) * inverse W \<noteq> 0"
proof
  assume e: "complex_of_real gam - of_real (gam - 1) * inverse W = 0"
  have W: "W \<noteq> 0" using assms(1) by (rule Re_ge_1_nonzero)
  from e have "complex_of_real gam = of_real (gam - 1) * inverse W" by simp
  then have "complex_of_real gam * W = of_real (gam - 1) * inverse W * W" by simp
  also have "\<dots> = of_real (gam - 1)" using W by simp
  finally have "Re (complex_of_real gam * W) = Re (complex_of_real (gam - 1))" by simp
  then have "gam * Re W = gam - 1" by simp
  moreover have "gam * 1 \<le> gam * Re W" using assms by (intro mult_left_mono) simp_all
  ultimately show False by linarith
qed

subsection \<open>The default fluid in \<open>rho_c_JCA\<close>\<close>

lemma rho_c_JCA_default:
  assumes "phi \<noteq> 0" and "\<bar>phi\<bar> \<le> 10 ^ 100" and "\<bar>sigma\<bar> \<le> 10 ^ 100" and "\<bar>alpha\<bar> \<le> 10 ^ 100"
    and "\<bar>v_length\<bar> \<le> 10 ^ 100" and "\<bar>t_length\<bar> \<le> 10 ^ 100"
  shows "\<exists>fl. Fluid_default = Inr fl \<and>
           rho_c_JCA freq phi sigma alpha v_length t_length default_args =
             Inr (map (rho_entry fl phi sigma alpha v_length) (map (\<lambda>x. 2 * pi * x) freq),
                  map (c_entry fl (fl_Cp fl * fl_Eta fl / fl_kappa fl) phi sigma alpha
                         v_length t_length)
                      (map (\<lambda>x. 2 * pi * x) freq))"
proof -
  obtain fl where fl: "Fluid default_args = Inr fl" "0 < fl_Pr fl" "fl_Pr fl \<le> 10 ^ 6"
    by (rule Fluid_default_obtain)
  have "fl_Pr fl \<le> 10 ^ 100"
    using fl(3) by (rule order_trans) simp
  then have Pr: "\<bar>fl_Pr fl\<bar> \<le> 10 ^ 100" using fl(2) by simp
  have e: "fl_Pr fl = fl_Cp fl * fl_Eta fl / fl_kappa fl"
    using Fluid_init_Inr_fields(2) [OF fl(1) [unfolded Fluid_def]] .
  have "rho_c_JCA freq phi sigma alpha v_length t_length default_args =
             Inr (map (rho_entry fl phi sigma alpha v_length) (map (\<lambda>x. 2 * pi * x) freq),
                  map (c_entry fl (fl_Pr fl) phi sigma alpha v_length t_length)
                      (map (\<lambda>x. 2 * pi * x) freq))"
    using fl(1) assms Pr by (rule rho_c_JCA_returns)
  then show ?thesis
    unfolding e Fluid_default_def using fl(1) by blast
qed

lemma typical_bounds:
  "\<bar>0.99 :: real\<bar> \<le> 10 ^ 100" "\<bar>15000 :: real\<bar> \<le> 10 ^ 100" "\<bar>1.01 :: real\<bar> \<le> 10 ^ 100"
  "\<bar>87.4 / 10 ^ 6 :: real\<bar> \<le> 10 ^ 100" "\<bar>196 / 10 ^ 6 :: real\<bar> \<le> 10 ^ 100"
  by simp_all

subsection \<open>What the programs return and the state they leave\<close>

lemma alpha_from_dkz_body_run:
  "alpha_from_dkz_body d k z g = (alpha_from_dkz g d k z, g)"
  by (simp add: alpha_from_dkz_body_def alpha_from_dkz_def then_py_def expr_def
      split: sum.splits)

lemma DBM_body_run: "DBM_body f d sigma g = (DBM g f d sigma, g)"
  by (simp add: DBM_body_def DBM_def then_py_def expr_def alpha_from_dkz_body_run
      split: sum.splits)



lemma set_global_changes_state:
  "snd (then_py (set_global (\<lambda>g. g\<lparr>g_z0 := g_z0 g + 1\<rparr>)) (\<lambda>u. DBM_body f d sigma) g) \<noteq> g"
proof
  assume "snd (then_py (set_global (\<lambda>g. g\<lparr>g_z0 := g_z0 g + 1\<rparr>)) (\<lambda>u. DBM_body f d sigma) g) = g"
  then have "g\<lparr>g_z0 := g_z0 g + 1\<rparr> = g"
    by (simp add: then_py_def set_global_def DBM_body_run)
  then have "g_z0 (g\<lparr>g_z0 := g_z0 g + 1\<rparr>) = g_z0 g" by (rule arg_cong)
  then show False by simp
qed

section \<open>The claims\<close>

text \<open>
  C1 (grid alignment). The claim: for every input frequency array, both entry points
  return an array of the input's length, entry \<open>i\<close> belonging to input frequency \<open>i\<close>.
  The code breaks it away from the default grid: \<open>DBM\<close> multiplies the global \<open>k0\<close> (995
  entries) into the array computed from \<open>f\<close>, and \<open>JCA\<close> divides by the \<open>c\<close> it computed
  from the global \<open>freq\<close>. A one-entry \<open>f\<close> is stretched and the result has 995 entries;
  a two-entry \<open>f\<close> does not broadcast and the call raises \<open>ValueError\<close>. For \<open>JCA\<close> the
  parameters are kept where their squares are floats, since \<open>rho_c_JCA\<close> raises
  \<open>OverflowError\<close> before that otherwise.
\<close>

theorem entry_points_off_default_grid:
  "map_sum id length (DBM module_globals [100] d sigma) = Inr 995
   \<and> DBM module_globals [100, 200] d sigma = Inl ValueError
   \<and> (\<bar>sigma\<bar> \<le> 10 ^ 100 \<and> \<bar>tort\<bar> \<le> 10 ^ 100 \<and> \<bar>v_length\<bar> \<le> 10 ^ 100 \<and> \<bar>t_length\<bar> \<le> 10 ^ 100
        \<longrightarrow> map_sum id length (JCA module_globals [100] d 0.99 sigma tort v_length t_length)
              = Inr 995
            \<and> JCA module_globals [100, 200] d 0.99 sigma tort v_length t_length
              = Inl ValueError)"
proof -
  have D1: "map_sum id length (DBM module_globals [100] d sigma) = Inr 995"
    by (simp add: DBM_def DBM_k_def DBM_z_def broadcast2_def module_globals_simps
        alpha_from_dkz_def)
  have D2: "DBM module_globals [100, 200] d sigma = Inl ValueError"
    by (simp add: DBM_def DBM_k_def broadcast2_def module_globals_simps)
  have J: "map_sum id length (JCA module_globals [100] d 0.99 sigma tort v_length t_length)
              = Inr 995
            \<and> JCA module_globals [100, 200] d 0.99 sigma tort v_length t_length
              = Inl ValueError"
    if b: "\<bar>sigma\<bar> \<le> 10 ^ 100" "\<bar>tort\<bar> \<le> 10 ^ 100" "\<bar>v_length\<bar> \<le> 10 ^ 100"
      "\<bar>t_length\<bar> \<le> 10 ^ 100"
  proof -
    have p: "(0.99::real) \<noteq> 0" by simp
    obtain fl where rc:
      "rho_c_JCA (g_freq module_globals) 0.99 sigma tort v_length t_length default_args =
         Inr (map (rho_entry fl 0.99 sigma tort v_length)
                (map (\<lambda>x. 2 * pi * x) (g_freq module_globals)),
              map (c_entry fl (fl_Cp fl * fl_Eta fl / fl_kappa fl) 0.99 sigma tort v_length
                     t_length)
                (map (\<lambda>x. 2 * pi * x) (g_freq module_globals)))"
      using rho_c_JCA_default [OF p typical_bounds(1) b] by blast
    have J1: "map_sum id length (JCA module_globals [100] d 0.99 sigma tort v_length t_length)
                = Inr 995"
      unfolding JCA_def rc
      by (simp add: broadcast2_def alpha_from_dkz_def module_globals_simps)
    have J2: "JCA module_globals [100, 200] d 0.99 sigma tort v_length t_length
                = Inl ValueError"
      unfolding JCA_def rc by (simp add: broadcast2_def module_globals_simps)
    from J1 J2 show ?thesis by (rule conjI)
  qed
  from D1 D2 J show ?thesis by blast
qed

theorem entry_points_off_default_grid_witness:
  "\<bar>15000 :: real\<bar> \<le> 10 ^ 100 \<and> \<bar>1.01 :: real\<bar> \<le> 10 ^ 100
   \<and> \<bar>87.4 / 10 ^ 6 :: real\<bar> \<le> 10 ^ 100 \<and> \<bar>196 / 10 ^ 6 :: real\<bar> \<le> 10 ^ 100
   \<and> map_sum id length
         (JCA module_globals [100] 0.01 0.99 15000 1.01 (87.4 / 10 ^ 6) (196 / 10 ^ 6)) = Inr 995
   \<and> JCA module_globals [100, 200] 0.01 0.99 15000 1.01 (87.4 / 10 ^ 6) (196 / 10 ^ 6)
       = Inl ValueError"
proof -
  have h: "\<bar>15000 :: real\<bar> \<le> 10 ^ 100 \<and> \<bar>1.01 :: real\<bar> \<le> 10 ^ 100
   \<and> \<bar>87.4 / 10 ^ 6 :: real\<bar> \<le> 10 ^ 100 \<and> \<bar>196 / 10 ^ 6 :: real\<bar> \<le> 10 ^ 100"
    by (intro conjI) (rule typical_bounds)+
  have c: "map_sum id length
         (JCA module_globals [100] 0.01 0.99 15000 1.01 (87.4 / 10 ^ 6) (196 / 10 ^ 6)) = Inr 995
   \<and> JCA module_globals [100, 200] 0.01 0.99 15000 1.01 (87.4 / 10 ^ 6) (196 / 10 ^ 6)
       = Inl ValueError"
    by (rule entry_points_off_default_grid
          [THEN conjunct2, THEN conjunct2, THEN mp, OF h])
  from h c show ?thesis by blast
qed

text \<open>
  C2 (the effective-medium entry point evaluates the medium at its input frequencies).
  Line 154 calls \<open>rho_c_JCA\<close> with the global \<open>freq\<close>, not with the parameter \<open>f\<close>: for the
  one-entry input \<open>[100]\<close> the density and the sound speed are those of the 995 angular
  frequencies of the default grid (the first one \<open>2 \<pi> 50\<close>), and only the numerator of
  \<open>k\<close> is taken from the input. The parameters are kept where their squares are floats.
\<close>

theorem JCA_medium_on_default_grid:
  assumes "\<bar>sigma\<bar> \<le> 10 ^ 100" and "\<bar>tort\<bar> \<le> 10 ^ 100" and "\<bar>v_length\<bar> \<le> 10 ^ 100"
    and "\<bar>t_length\<bar> \<le> 10 ^ 100"
  shows "\<exists>fl. Fluid_default = Inr fl \<and>
     JCA module_globals [100] d 0.99 sigma tort v_length t_length =
       alpha_from_dkz module_globals d
         (map (\<lambda>w. of_real (100 * pi * 2)
                    / c_entry fl (fl_Cp fl * fl_Eta fl / fl_kappa fl) 0.99 sigma tort
                        v_length t_length w)
              (g_omega module_globals))
         (map (\<lambda>w. rho_entry fl 0.99 sigma tort v_length w
                    * c_entry fl (fl_Cp fl * fl_Eta fl / fl_kappa fl) 0.99 sigma tort
                        v_length t_length w)
              (g_omega module_globals))
     \<and> length (g_omega module_globals) = 995
     \<and> g_omega module_globals ! 0 = 2 * pi * 50"
proof -
  have p: "(0.99::real) \<noteq> 0" by simp
  obtain fl where fl: "Fluid_default = Inr fl" and rc:
    "rho_c_JCA (g_freq module_globals) 0.99 sigma tort v_length t_length default_args =
       Inr (map (rho_entry fl 0.99 sigma tort v_length)
              (map (\<lambda>x. 2 * pi * x) (g_freq module_globals)),
            map (c_entry fl (fl_Cp fl * fl_Eta fl / fl_kappa fl) 0.99 sigma tort v_length t_length)
              (map (\<lambda>x. 2 * pi * x) (g_freq module_globals)))"
    using rho_c_JCA_default [OF p typical_bounds(1) assms] by blast
  have J: "JCA module_globals [100] d 0.99 sigma tort v_length t_length =
       alpha_from_dkz module_globals d
         (map (\<lambda>w. of_real (100 * pi * 2)
                    / c_entry fl (fl_Cp fl * fl_Eta fl / fl_kappa fl) 0.99 sigma tort
                        v_length t_length w)
              (g_omega module_globals))
         (map (\<lambda>w. rho_entry fl 0.99 sigma tort v_length w
                    * c_entry fl (fl_Cp fl * fl_Eta fl / fl_kappa fl) 0.99 sigma tort
                        v_length t_length w)
              (g_omega module_globals))"
    unfolding JCA_def rc omega_module_globals [symmetric]
    by (simp add: broadcast2_def module_globals_simps map2_same comp_def)
  from fl J module_globals_simps(3) omega_first show ?thesis by blast
qed

theorem JCA_medium_on_default_grid_witness:
  "\<bar>15000 :: real\<bar> \<le> 10 ^ 100 \<and> \<bar>1.01 :: real\<bar> \<le> 10 ^ 100
   \<and> \<bar>87.4 / 10 ^ 6 :: real\<bar> \<le> 10 ^ 100 \<and> \<bar>196 / 10 ^ 6 :: real\<bar> \<le> 10 ^ 100
   \<and> (\<exists>fl. Fluid_default = Inr fl \<and>
     JCA module_globals [100] 0.01 0.99 15000 1.01 (87.4 / 10 ^ 6) (196 / 10 ^ 6) =
       alpha_from_dkz module_globals 0.01
         (map (\<lambda>w. of_real (100 * pi * 2)
                    / c_entry fl (fl_Cp fl * fl_Eta fl / fl_kappa fl) 0.99 15000 1.01
                        (87.4 / 10 ^ 6) (196 / 10 ^ 6) w)
              (g_omega module_globals))
         (map (\<lambda>w. rho_entry fl 0.99 15000 1.01 (87.4 / 10 ^ 6) w
                    * c_entry fl (fl_Cp fl * fl_Eta fl / fl_kappa fl) 0.99 15000 1.01
                        (87.4 / 10 ^ 6) (196 / 10 ^ 6) w)
              (g_omega module_globals))
     \<and> length (g_omega module_globals) = 995
     \<and> g_omega module_globals ! 0 = 2 * pi * 50)"
  by (intro conjI typical_bounds(2-5)
        JCA_medium_on_default_grid [OF typical_bounds(2-5)])

text \<open>
  C3 (empirical model). The claim: \<open>z(f)\<close> and \<open>k(f)\<close> follow the power laws, with
  \<open>k0(f) = 2 \<pi> f / c0\<close> taken per entry from the input frequency. \<open>z\<close> is computed from
  the input, but \<open>k\<close> multiplies the global \<open>k0\<close> of the default grid: for the one-entry
  input \<open>[100]\<close> the code returns 995 wavenumbers, the first built on \<open>k0 = 2 \<pi> 50 / c0\<close>,
  half of what the claim says.
\<close>

theorem DBM_k_off_default_grid:
  "DBM_z module_globals [100] 15000 = [spec_DBM_z (g_z0 module_globals) 15000 100]
   \<and> (case DBM_k module_globals [100] 15000 of
      Inl e \<Rightarrow> False
    | Inr k \<Rightarrow> length k = 995
               \<and> k ! 0 = spec_DBM_k 343 15000 100 / 2
               \<and> k ! 0 \<noteq> spec_DBM_k 343 15000 100)"
proof -
  let ?F = "1 + complex_of_real (7.81 * (1000 * 100 / 15000) powr (- 0.618))
              - \<i> * of_real (11.41 * (1000 * 100 / 15000) powr (- 0.618))"
  have F: "?F \<noteq> 0" by (rule DBM_factor_nonzero)
  have k: "DBM_k module_globals [100] 15000 =
             Inr (map (\<lambda>a. complex_of_real a * ?F) (g_k0 module_globals))"
    by (simp add: DBM_k_def broadcast2_def module_globals_simps)
  have s: "spec_DBM_k 343 15000 100 = complex_of_real (2 * pi * 100 / 343) * ?F"
    by (simp add: spec_DBM_k_def)
  have e0: "map (\<lambda>a. complex_of_real a * ?F) (g_k0 module_globals) ! 0
              = complex_of_real (2 * pi * 50 / 343) * ?F"
  proof -
    have "0 < length (g_k0 module_globals)" by (simp add: module_globals_simps)
    then have "map (\<lambda>a. complex_of_real a * ?F) (g_k0 module_globals) ! 0
                 = complex_of_real (g_k0 module_globals ! 0) * ?F"
      by (rule nth_map)
    then show ?thesis unfolding k0_first .
  qed
  have half: "complex_of_real (2 * pi * 50 / 343) * ?F = spec_DBM_k 343 15000 100 / 2"
    unfolding s by simp
  have ne: "complex_of_real (2 * pi * 50 / 343) * ?F \<noteq> spec_DBM_k 343 15000 100"
  proof
    assume "complex_of_real (2 * pi * 50 / 343) * ?F = spec_DBM_k 343 15000 100"
    then have "complex_of_real (2 * pi * 50 / 343) * ?F = complex_of_real (2 * pi * 100 / 343) * ?F"
      unfolding s .
    then have "complex_of_real (2 * pi * 50 / 343) = complex_of_real (2 * pi * 100 / 343)"
      by (simp only: mult_right_cancel [OF F])
    then have "2 * pi * 50 / 343 = 2 * pi * 100 / (343::real)" by (simp only: of_real_eq_iff)
    then show False by simp
  qed
  have z: "DBM_z module_globals [100] 15000 = [spec_DBM_z (g_z0 module_globals) 15000 100]"
    by (simp add: DBM_z_def spec_DBM_z_def)
  have "(case DBM_k module_globals [100] 15000 of
      Inl e \<Rightarrow> False
    | Inr k \<Rightarrow> length k = 995
               \<and> k ! 0 = spec_DBM_k 343 15000 100 / 2
               \<and> k ! 0 \<noteq> spec_DBM_k 343 15000 100)"
    unfolding k sum.case e0 using half ne by (simp add: module_globals_simps)
  with z show ?thesis by (rule conjI)
qed

text \<open>
  C4 (environment constants). The claim: \<open>rho0\<close> is the density \<open>P0 / (R TK)\<close> of the default
  fluid, \<open>c0\<close> its sound speed up to 0.1 percent, \<open>z0 = rho0 c0\<close>. The module does not
  compute the constants from a \<open>Fluid\<close>: they are the literals of lines 5 and 6, and
  \<open>rho0 = 1.213\<close> is more than 0.001 away from the default fluid's density.
\<close>

theorem rho0_is_not_the_fluid_density:
  "(case Fluid_default of Inl e \<Rightarrow> False
    | Inr fl \<Rightarrow> g_rho0 module_globals \<noteq> fl_rho fl
               \<and> 0.001 < \<bar>g_rho0 module_globals - fl_rho fl\<bar>)"
proof -
  obtain fl where fl: "Fluid_default = Inr fl" "fl_rho fl = 101325 / (287.05 * 293.15)"
    using Fluid_default_props by blast
  show ?thesis by (simp add: fl module_globals_simps)
qed

text \<open>
  C4, as the code has it: the default fluid's density is \<open>P0 / (R TK)\<close>, within 0.001 of 1.2045;
  \<open>rho0\<close> is the literal 1.213, between 0.008 and 0.009 away from it; \<open>c0\<close> is the literal
  343, within 0.1 percent of the fluid's sound speed, which is within 0.2 of 343.2; and
  \<open>z0 = rho0 c0\<close>.
\<close>

theorem environment_constants:
  "\<exists>fl. Fluid_default = Inr fl
     \<and> fl_rho fl = 101325 / (287.05 * 293.15)
     \<and> \<bar>fl_rho fl - 1.2045\<bar> \<le> 0.001
     \<and> g_rho0 module_globals = 1.213
     \<and> 0.008 < \<bar>g_rho0 module_globals - fl_rho fl\<bar>
     \<and> \<bar>g_rho0 module_globals - fl_rho fl\<bar> < 0.009
     \<and> g_c0 module_globals = 343
     \<and> fl_co fl = sqrt (1.4 * (287.05 * 293.15))
     \<and> \<bar>fl_co fl - g_c0 module_globals\<bar> \<le> 0.001 * 343
     \<and> \<bar>fl_co fl - 343.2\<bar> \<le> 0.2
     \<and> g_z0 module_globals = g_rho0 module_globals * g_c0 module_globals"
proof -
  obtain fl where fl: "Fluid_default = Inr fl" "fl_rho fl = 101325 / (287.05 * 293.15)"
    "fl_co fl = sqrt (1.4 * (287.05 * 293.15))"
    using Fluid_default_props by blast
  have r1: "\<bar>fl_rho fl - 1.2045\<bar> \<le> 0.001" by (simp add: fl)
  have r2: "0.008 < \<bar>g_rho0 module_globals - fl_rho fl\<bar>"
    by (simp add: fl module_globals_simps)
  have r3: "\<bar>g_rho0 module_globals - fl_rho fl\<bar> < 0.009"
    by (simp add: fl module_globals_simps)
  have c1: "\<bar>fl_co fl - g_c0 module_globals\<bar> \<le> 0.001 * 343"
    unfolding fl module_globals_simps using sqrt_default_bounds by (intro abs_leI) simp_all
  have c2: "\<bar>fl_co fl - 343.2\<bar> \<le> 0.2"
    unfolding fl using sqrt_default_bounds by (intro abs_leI) simp_all
  have z: "g_z0 module_globals = g_rho0 module_globals * g_c0 module_globals"
    by (simp add: module_globals_simps)
  show ?thesis
    by (intro exI [of _ fl] conjI) (rule fl r1 r2 r3 c1 c2 z module_globals_simps)+
qed

text \<open>
  C5 (rigid-backed conversion). For a thickness \<open>d > 0\<close> and one complex pair \<open>(k, z)\<close> per
  frequency, away from the zeros and poles of the tangent and from \<open>zs = -z0\<close>, the
  conversion returns one real value per frequency, and entry \<open>i\<close> is \<open>1 - |R|\<^sup>2\<close> with
  \<open>R = (zs - z0) / (zs + z0)\<close> and \<open>zs = -j z / tan (k d)\<close>, \<open>z0\<close> being the global
  reference impedance.
\<close>

theorem alpha_from_dkz_formula:
  assumes "0 < d" and "length k = length z"
    and "\<forall>i < length k. sin (k ! i * of_real d) \<noteq> 0 \<and> cos (k ! i * of_real d) \<noteq> 0
            \<and> spec_zs d (k ! i) (z ! i) + of_real (g_z0 g) \<noteq> 0"
  shows "\<exists>a. alpha_from_dkz g d k z = Inr a \<and> length a = length k
           \<and> (\<forall>i < length k. a ! i = spec_alpha (g_z0 g) d (k ! i) (z ! i))"
  using alpha_from_dkz_same_length [OF assms(2), of g d] by simp

theorem alpha_from_dkz_formula_witness:
  "(0::real) < 1 \<and> length [complex_of_real pi / 4] = length [\<i>]
   \<and> sin (complex_of_real pi / 4 * of_real 1) \<noteq> 0
   \<and> cos (complex_of_real pi / 4 * of_real 1) \<noteq> 0
   \<and> spec_zs 1 (complex_of_real pi / 4) \<i> + of_real (g_z0 module_globals) \<noteq> 0
   \<and> (\<exists>a. alpha_from_dkz module_globals 1 [complex_of_real pi / 4] [\<i>] = Inr a \<and> length a = 1
          \<and> a ! 0 = spec_alpha (g_z0 module_globals) 1 (complex_of_real pi / 4) \<i>)"
proof -
  have h1: "(0::real) < 1" by simp
  have h2: "length [complex_of_real pi / 4] = length [\<i>]" by simp
  have s: "sin (complex_of_real pi / 4 * of_real 1) \<noteq> 0"
    and c: "cos (complex_of_real pi / 4 * of_real 1) \<noteq> 0"
    by (simp_all add: sin_cos_pi4_complex)
  have z: "spec_zs 1 (complex_of_real pi / 4) \<i> + of_real (g_z0 module_globals) \<noteq> 0"
    by (simp add: spec_zs_def tan_pi4_complex module_globals_simps)
  have h3: "\<forall>i < length [complex_of_real pi / 4].
              sin ([complex_of_real pi / 4] ! i * of_real 1) \<noteq> 0
              \<and> cos ([complex_of_real pi / 4] ! i * of_real 1) \<noteq> 0
              \<and> spec_zs 1 ([complex_of_real pi / 4] ! i) ([\<i>] ! i)
                  + of_real (g_z0 module_globals) \<noteq> 0"
    using s c z by simp
  have "\<exists>a. alpha_from_dkz module_globals 1 [complex_of_real pi / 4] [\<i>] = Inr a
           \<and> length a = length [complex_of_real pi / 4]
           \<and> (\<forall>i < length [complex_of_real pi / 4].
                  a ! i = spec_alpha (g_z0 module_globals) 1 ([complex_of_real pi / 4] ! i) ([\<i>] ! i))"
    by (rule alpha_from_dkz_formula [OF h1 h2 h3])
  then have e: "\<exists>a. alpha_from_dkz module_globals 1 [complex_of_real pi / 4] [\<i>] = Inr a
      \<and> length a = 1
      \<and> a ! 0 = spec_alpha (g_z0 module_globals) 1 (complex_of_real pi / 4) \<i>"
    by auto
  from h1 h2 s c z e show ?thesis by blast
qed

text \<open>
  C6 (effective-medium formulas). For a fluid whose constructor arguments lie in the
  range where the constructor returns, with positive pressure, reference viscosity and
  adiabatic index above 1, for positive frequencies and for porosity, flow resistivity,
  tortuosity and characteristic lengths that are positive and at most \<open>10 ^ 100\<close> (so that
  their squares are floats, as the square of the Prandtl number must be), \<open>rho_c_JCA\<close>
  returns, per frequency, the effective density and sound speed of the specification,
  computed with the density, viscosity, adiabatic index, pressure and Prandtl number of
  that fluid. The three square roots are principal (non-negative real part), and no
  divisor of the formulas is zero there: the effective density, the thermal bracket and
  the denominator of \<open>K\<close> do not vanish.
\<close>

theorem rho_c_JCA_formulas:
  assumes fl: "Fluid a = Inr fl"
    and box: "100 \<le> arg_T0 a + 273.15" "arg_T0 a \<le> 10 ^ 30"
      "1 / 10 ^ 30 \<le> arg_Tref a" "arg_Tref a \<le> 10 ^ 30" "0 \<le> arg_C a" "arg_C a \<le> 10 ^ 30"
      "1 / 10 ^ 30 \<le> arg_R a" "arg_R a \<le> 10 ^ 30"
    and pos: "0 < arg_P0 a" "0 < arg_Eta0 a" "1 < arg_adia a"
    and Pr: "fl_Pr fl \<noteq> 0" "\<bar>fl_Pr fl\<bar> \<le> 10 ^ 100"
    and freq: "\<forall>x \<in> set freq. 0 < x"
    and par: "0 < phi" "phi \<le> 10 ^ 100" "0 < sigma" "sigma \<le> 10 ^ 100"
      "0 < alpha" "alpha \<le> 10 ^ 100" "0 < v_length" "v_length \<le> 10 ^ 100"
      "0 < t_length" "t_length \<le> 10 ^ 100"
  shows "rho_c_JCA freq phi sigma alpha v_length t_length a =
               Inr (map (\<lambda>x. spec_rho_eff fl phi sigma alpha v_length (2 * pi * x)) freq,
                    map (\<lambda>x. spec_c_eff fl phi sigma alpha v_length t_length (2 * pi * x)) freq)
           \<and> (\<forall>x \<in> set freq.
                  0 \<le> Re (spec_G fl phi sigma alpha v_length (2 * pi * x))
                  \<and> 0 \<le> Re (spec_H fl t_length (2 * pi * x))
                  \<and> 0 \<le> Re (spec_c_eff fl phi sigma alpha v_length t_length (2 * pi * x))
                  \<and> spec_rho_eff fl phi sigma alpha v_length (2 * pi * x) \<noteq> 0
                  \<and> spec_W fl t_length (2 * pi * x) \<noteq> 0
                  \<and> of_real (fl_gamma fl)
                      - of_real (fl_gamma fl - 1) * inverse (spec_W fl t_length (2 * pi * x)) \<noteq> 0)"
proof -
  note F = Fluid_init_Inr_fields [OF fl [unfolded Fluid_def]]
  have TK: "0 < arg_T0 a + 273.15" using box(1) by simp
  have Tref: "0 < arg_Tref a" using box(3) by (rule less_le_trans [rotated]) simp
  have R: "0 < arg_R a" using box(7) by (rule less_le_trans [rotated]) simp
  have rho: "0 < fl_rho fl" unfolding F(4) using pos(1) R TK by simp
  have e1: "0 < (arg_Tref a + arg_C a) / (arg_T0 a + 273.15 + arg_C a)"
    using Tref TK box(5) by simp
  have e2: "0 < ((arg_T0 a + 273.15) / arg_Tref a) powr (3 / 2)"
    using Tref TK by simp
  have Eta: "0 < fl_Eta fl" unfolding F(7) by (intro mult_pos_pos pos(2) e1 e2)
  have gam: "1 < fl_gamma fl" unfolding F(5) by (rule pos(3))
  have ab: "\<bar>phi\<bar> \<le> 10 ^ 100" "\<bar>sigma\<bar> \<le> 10 ^ 100" "\<bar>alpha\<bar> \<le> 10 ^ 100"
    "\<bar>v_length\<bar> \<le> 10 ^ 100" "\<bar>t_length\<bar> \<le> 10 ^ 100"
    using par by simp_all
  have "phi \<noteq> 0" using par(1) by simp
  then have rc: "rho_c_JCA freq phi sigma alpha v_length t_length a =
             Inr (map (rho_entry fl phi sigma alpha v_length) (map (\<lambda>x. 2 * pi * x) freq),
                  map (c_entry fl (fl_Pr fl) phi sigma alpha v_length t_length)
                      (map (\<lambda>x. 2 * pi * x) freq))"
    using fl ab Pr(2) by (intro rho_c_JCA_returns)
  have eq: "rho_c_JCA freq phi sigma alpha v_length t_length a =
               Inr (map (\<lambda>x. spec_rho_eff fl phi sigma alpha v_length (2 * pi * x)) freq,
                    map (\<lambda>x. spec_c_eff fl phi sigma alpha v_length t_length (2 * pi * x)) freq)"
    unfolding rc by (simp add: comp_def rho_entry_spec c_entry_spec)
  have reg: "0 \<le> Re (spec_G fl phi sigma alpha v_length (2 * pi * x))
                  \<and> 0 \<le> Re (spec_H fl t_length (2 * pi * x))
                  \<and> 0 \<le> Re (spec_c_eff fl phi sigma alpha v_length t_length (2 * pi * x))
                  \<and> spec_rho_eff fl phi sigma alpha v_length (2 * pi * x) \<noteq> 0
                  \<and> spec_W fl t_length (2 * pi * x) \<noteq> 0
                  \<and> of_real (fl_gamma fl)
                      - of_real (fl_gamma fl - 1) * inverse (spec_W fl t_length (2 * pi * x)) \<noteq> 0"
    if "x \<in> set freq" for x
  proof -
    have w: "0 < 2 * pi * x" using that freq by simp
    have W: "1 \<le> Re (spec_W fl t_length (2 * pi * x))"
      using Eta rho w by (rule spec_W_Re)
    show ?thesis
    proof (intro conjI)
      show "0 \<le> Re (spec_G fl phi sigma alpha v_length (2 * pi * x))"
        unfolding spec_G_def by (rule Re_csqrt)
      show "0 \<le> Re (spec_H fl t_length (2 * pi * x))"
        unfolding spec_H_def by (rule Re_csqrt)
      show "0 \<le> Re (spec_c_eff fl phi sigma alpha v_length t_length (2 * pi * x))"
        unfolding spec_c_eff_def by (rule Re_csqrt)
      show "spec_rho_eff fl phi sigma alpha v_length (2 * pi * x) \<noteq> 0"
        using Eta rho w par(1,3,5) by (rule spec_rho_eff_nonzero)
      show "spec_W fl t_length (2 * pi * x) \<noteq> 0"
        using W by (rule Re_ge_1_nonzero)
      show "of_real (fl_gamma fl)
              - of_real (fl_gamma fl - 1) * inverse (spec_W fl t_length (2 * pi * x)) \<noteq> 0"
        using W gam by (rule spec_K_denominator_nonzero)
    qed
  qed
  from eq reg show ?thesis by blast
qed

theorem rho_c_JCA_formulas_witness:
  "\<exists>fl. Fluid default_args = Inr fl
     \<and> fl_Pr fl \<noteq> 0 \<and> \<bar>fl_Pr fl\<bar> \<le> 10 ^ 100
     \<and> rho_c_JCA [100] 0.99 15000 1.01 (87.4 / 10 ^ 6) (196 / 10 ^ 6) default_args =
               Inr ([spec_rho_eff fl 0.99 15000 1.01 (87.4 / 10 ^ 6) (2 * pi * 100)],
                    [spec_c_eff fl 0.99 15000 1.01 (87.4 / 10 ^ 6) (196 / 10 ^ 6) (2 * pi * 100)])
     \<and> 0 \<le> Re (spec_G fl 0.99 15000 1.01 (87.4 / 10 ^ 6) (2 * pi * 100))
     \<and> spec_rho_eff fl 0.99 15000 1.01 (87.4 / 10 ^ 6) (2 * pi * 100) \<noteq> 0"
proof -
  obtain fl where fl: "Fluid default_args = Inr fl" "0 < fl_Pr fl" "fl_Pr fl \<le> 10 ^ 6"
    by (rule Fluid_default_obtain)
  have p1: "fl_Pr fl \<noteq> 0" using fl(2) by simp
  have "fl_Pr fl \<le> 10 ^ 100" using fl(3) by (rule order_trans) simp
  then have p2: "\<bar>fl_Pr fl\<bar> \<le> 10 ^ 100" using fl(2) by simp
  have b: "100 \<le> arg_T0 default_args + 273.15" "arg_T0 default_args \<le> 10 ^ 30"
      "1 / 10 ^ 30 \<le> arg_Tref default_args" "arg_Tref default_args \<le> 10 ^ 30"
      "0 \<le> arg_C default_args" "arg_C default_args \<le> 10 ^ 30"
      "1 / 10 ^ 30 \<le> arg_R default_args" "arg_R default_args \<le> 10 ^ 30"
      "0 < arg_P0 default_args" "0 < arg_Eta0 default_args" "1 < arg_adia default_args"
    by (simp_all add: default_args_def)
  have f: "\<forall>x \<in> set [100::real]. 0 < x" by simp
  have q: "(0::real) < 0.99" "(0.99::real) \<le> 10 ^ 100" "(0::real) < 15000"
    "(15000::real) \<le> 10 ^ 100" "(0::real) < 1.01" "(1.01::real) \<le> 10 ^ 100"
    "(0::real) < 87.4 / 10 ^ 6" "(87.4 / 10 ^ 6 :: real) \<le> 10 ^ 100"
    "(0::real) < 196 / 10 ^ 6" "(196 / 10 ^ 6 :: real) \<le> 10 ^ 100"
    by simp_all
  note t = rho_c_JCA_formulas [OF fl(1) b p1 p2 f q]
  have e: "rho_c_JCA [100] 0.99 15000 1.01 (87.4 / 10 ^ 6) (196 / 10 ^ 6) default_args =
               Inr ([spec_rho_eff fl 0.99 15000 1.01 (87.4 / 10 ^ 6) (2 * pi * 100)],
                    [spec_c_eff fl 0.99 15000 1.01 (87.4 / 10 ^ 6) (196 / 10 ^ 6) (2 * pi * 100)])"
    using t [THEN conjunct1] by simp
  have m: "(100::real) \<in> set [100]" by simp
  note r = bspec [OF t [THEN conjunct2] m]
  have G: "0 \<le> Re (spec_G fl 0.99 15000 1.01 (87.4 / 10 ^ 6) (2 * pi * 100))"
    using r by blast
  have R: "spec_rho_eff fl 0.99 15000 1.01 (87.4 / 10 ^ 6) (2 * pi * 100) \<noteq> 0"
    using r by blast
  show ?thesis
    by (intro conjI exI [of _ fl]) (rule fl(1) p1 p2 e G R)+
qed

text \<open>
  C7 (fluid properties). The claim: for every finite constructor input the constructor
  computes the fields. At \<open>T0 = -273.15\<close> the absolute temperature is 0 and line 41
  divides by \<open>R * TK = 0\<close>: the constructor raises \<open>ZeroDivisionError\<close>. At \<open>T0 = 10 ^ 200\<close> the
  powers of lines 46 and 49 are too large for a float: it raises \<open>OverflowError\<close>.
\<close>

theorem Fluid_init_absolute_zero:
  "Fluid_init (- 273.15) 101325.0 287.05 1.4 291.15 120.0 (18.07 / 10 ^ 6) = Inl ZeroDivisionError
   \<and> Fluid_init (10 ^ 200) 101325.0 287.05 1.4 291.15 120.0 (18.07 / 10 ^ 6) = Inl OverflowError"
proof -
  have z: "Fluid_init (- 273.15) 101325.0 287.05 1.4 291.15 120.0 (18.07 / 10 ^ 6)
             = Inl ZeroDivisionError"
    by (simp add: Fluid_init_def rounds_to_zero_def)
  have "(10::real) ^ 309 \<le> \<bar>(10 ^ 200) ^ 2\<bar>" by simp
  then have o: "overflows (((10::real) ^ 200) ^ 2)" by (rule overflows_large)
  have "1 / 10 ^ 300 \<le> \<bar>287.05 * ((10::real) ^ 200 + 273.15)\<bar>" by simp
  then have r: "\<not> rounds_to_zero (287.05 * ((10::real) ^ 200 + 273.15))"
    by (rule not_rounds_to_zero)
  have n: "(10::real) ^ 200 + 273.15 + 120.0 \<noteq> 0" "(291.15::real) \<noteq> 0" by simp_all
  have "Fluid_init (10 ^ 200) 101325.0 287.05 1.4 291.15 120.0 (18.07 / 10 ^ 6)
          = Inl OverflowError"
    unfolding Fluid_init_def Let_def using o r n by (simp only: if_True if_False simp_thms split: if_splits)
  with z show ?thesis by (rule conjI)
qed

text \<open>
  C7, as the code has it: for an absolute temperature of at least 100 K, \<open>T0\<close> at most
  \<open>10 ^ 30\<close>, a gas constant and a reference temperature between \<open>1 / 10 ^ 30\<close> and \<open>10 ^ 30\<close>, a
  Sutherland constant and an adiabatic index between 0 and \<open>10 ^ 30\<close>, and a pressure and a
  reference viscosity of magnitude at most \<open>10 ^ 30\<close>, the constructor returns a fluid with
  \<open>TK = T0 + 273.15\<close>, \<open>rho = P0 / (R TK)\<close>, Sutherland's viscosity, \<open>co = sqrt (adia R TK)\<close>,
  \<open>Pr = Cp Eta / kappa\<close>, and \<open>Cp\<close> and \<open>kappa\<close> cubic polynomials in \<open>T0\<close> (the source
  writes \<open>kappa\<close> as a cubic in \<open>TK\<close>; its coefficients in \<open>T0\<close> are the expanded ones). In
  that range no divisor is zero, \<open>kappa\<close> being at least 0.005, and no power overflows.
\<close>

theorem Fluid_init_fields:
  assumes "100 \<le> T0 + 273.15" and "T0 \<le> 10 ^ 30"
    and "1 / 10 ^ 30 \<le> Tref" and "Tref \<le> 10 ^ 30" and "0 \<le> C" and "C \<le> 10 ^ 30"
    and "1 / 10 ^ 30 \<le> R" and "R \<le> 10 ^ 30" and "0 \<le> adia" and "adia \<le> 10 ^ 30"
    and "\<bar>P0\<bar> \<le> 10 ^ 30" and "\<bar>Eta0\<bar> \<le> 10 ^ 30"
  shows "\<exists>fl. Fluid_init T0 P0 R adia Tref C Eta0 = Inr fl
           \<and> fl_TK fl = T0 + 273.15
           \<and> fl_rho fl = P0 / (R * fl_TK fl)
           \<and> fl_Eta fl = Eta0 * ((Tref + C) / (fl_TK fl + C)) * (fl_TK fl / Tref) powr 1.5
           \<and> fl_co fl = sqrt (adia * R * fl_TK fl)
           \<and> fl_Pr fl = fl_Cp fl * fl_Eta fl / fl_kappa fl
           \<and> fl_Cp fl = 1006.2 + 0.036028 * T0 - 0.0010855 * T0 ^ 2 + 0.000013791 * T0 ^ 3
           \<and> fl_kappa fl = 192880266457669329 / 8000000000000000000
                            + 31483139478149 / 400000000000000000 * T0
                            - 722252477 / 20000000000000000 * T0 ^ 2
                            + 15207 / 1000000000000000 * T0 ^ 3
           \<and> 1 / 200 \<le> fl_kappa fl"
proof -
  let ?TK = "T0 + 273.15"
  let ?kappa = "1.5207 / 10 ^ 11 * ?TK ^ 3 - 4.8574 / 10 ^ 8 * ?TK ^ 2
           + 1.0184 / 10 ^ 4 * ?TK - 3.9333 / 10 ^ 4"
  let ?Eta = "Eta0 * ((Tref + C) / (?TK + C)) * (?TK / Tref) powr (3 / 2)"
  let ?Cp = "10 ^ 3 * (1.0062 + 3.6028 / 10 ^ 5 * T0 - 1.0855 / 10 ^ 6 * T0 ^ 2
                             + 1.3791 / 10 ^ 8 * T0 ^ 3)"
  let ?co = "sqrt (adia * (R * ?TK))"
  let ?fl = "\<lparr>fl_TK = ?TK, fl_rho = P0 / (R * ?TK), fl_Eta = ?Eta, fl_Cp = ?Cp,
              fl_kappa = ?kappa, fl_co = ?co, fl_c = ?co, fl_speedOfSound = ?co,
              fl_density = P0 / (R * ?TK), fl_adia = adia, fl_gamma = adia, fl_P0 = P0,
              fl_Pr = ?Cp * ?Eta / ?kappa\<rparr>"
  have F: "Fluid_init T0 P0 R adia Tref C Eta0 = Inr ?fl"
    using assms(1,2,3,4,5,7,8) by (rule Fluid_init_returns)
  have k: "?kappa = 192880266457669329 / 8000000000000000000
                            + 31483139478149 / 400000000000000000 * T0
                            - 722252477 / 20000000000000000 * T0 ^ 2
                            + 15207 / 1000000000000000 * T0 ^ 3"
    by (simp add: power2_eq_square power3_eq_cube field_simps)
  have cp: "?Cp = 1006.2 + 0.036028 * T0 - 0.0010855 * T0 ^ 2 + 0.000013791 * T0 ^ 3"
    by (simp add: algebra_simps)
  have e: "((3::real) / 2) = 1.5" by simp
  have s: "adia * (R * ?TK) = adia * R * ?TK" by simp
  have kl: "1 / 200 \<le> ?kappa" using assms(1) by (rule kappa_lower)
  show ?thesis
  proof (intro exI [of _ ?fl] conjI)
    show "Fluid_init T0 P0 R adia Tref C Eta0 = Inr ?fl" by (rule F)
    show "fl_TK ?fl = T0 + 273.15" by (simp only: fluid.select_convs)
    show "fl_rho ?fl = P0 / (R * fl_TK ?fl)" by (simp only: fluid.select_convs)
    show "fl_Eta ?fl = Eta0 * ((Tref + C) / (fl_TK ?fl + C)) * (fl_TK ?fl / Tref) powr 1.5"
      by (simp only: fluid.select_convs e)
    show "fl_co ?fl = sqrt (adia * R * fl_TK ?fl)" by (simp only: fluid.select_convs s)
    show "fl_Pr ?fl = fl_Cp ?fl * fl_Eta ?fl / fl_kappa ?fl" by (simp only: fluid.select_convs)
    show "fl_Cp ?fl = 1006.2 + 0.036028 * T0 - 0.0010855 * T0 ^ 2 + 0.000013791 * T0 ^ 3"
      by (simp only: fluid.select_convs cp)
    show "fl_kappa ?fl = 192880266457669329 / 8000000000000000000
                            + 31483139478149 / 400000000000000000 * T0
                            - 722252477 / 20000000000000000 * T0 ^ 2
                            + 15207 / 1000000000000000 * T0 ^ 3"
      by (simp only: fluid.select_convs k)
    show "1 / 200 \<le> fl_kappa ?fl" using kl by (simp only: fluid.select_convs)
  qed
qed

theorem Fluid_init_fields_witness:
  "(100::real) \<le> 20 + 273.15 \<and> (20::real) \<le> 10 ^ 30
   \<and> 1 / 10 ^ 30 \<le> (291.15::real) \<and> (291.15::real) \<le> 10 ^ 30
   \<and> (0::real) \<le> 120 \<and> (120::real) \<le> 10 ^ 30
   \<and> 1 / 10 ^ 30 \<le> (287.05::real) \<and> (287.05::real) \<le> 10 ^ 30
   \<and> (0::real) \<le> 1.4 \<and> (1.4::real) \<le> 10 ^ 30
   \<and> \<bar>101325 :: real\<bar> \<le> 10 ^ 30 \<and> \<bar>18.07 / 10 ^ 6 :: real\<bar> \<le> 10 ^ 30
   \<and> (\<exists>fl. Fluid_init 20 101325 287.05 1.4 291.15 120 (18.07 / 10 ^ 6) = Inr fl
          \<and> fl_TK fl = 293.15 \<and> fl_rho fl = 101325 / (287.05 * 293.15)
          \<and> 1 / 200 \<le> fl_kappa fl)"
proof -
  have h: "(100::real) \<le> 20 + 273.15" "(20::real) \<le> 10 ^ 30"
    "1 / 10 ^ 30 \<le> (291.15::real)" "(291.15::real) \<le> 10 ^ 30"
    "(0::real) \<le> 120" "(120::real) \<le> 10 ^ 30"
    "1 / 10 ^ 30 \<le> (287.05::real)" "(287.05::real) \<le> 10 ^ 30"
    "(0::real) \<le> 1.4" "(1.4::real) \<le> 10 ^ 30"
    "\<bar>101325 :: real\<bar> \<le> 10 ^ 30" "\<bar>18.07 / 10 ^ 6 :: real\<bar> \<le> 10 ^ 30"
    by simp_all
  obtain fl where fl: "Fluid_init 20 101325 287.05 1.4 291.15 120 (18.07 / 10 ^ 6) = Inr fl"
      "fl_TK fl = 20 + 273.15" "fl_rho fl = 101325 / (287.05 * fl_TK fl)"
      "1 / 200 \<le> fl_kappa fl"
    using Fluid_init_fields [OF h] by blast
  have t: "fl_TK fl = 293.15" using fl(2) by simp
  have r: "fl_rho fl = 101325 / (287.05 * 293.15)" using fl(3) unfolding t .
  show ?thesis
    by (intro conjI exI [of _ fl]) (rule h fl(1) t r fl(4))+
qed

text \<open>
  C8 (no exception on invalid input). The claim: for \<open>sigma \<le> 0\<close>, \<open>phi \<le> 0\<close>, \<open>d \<le> 0\<close> and at
  the singular points of the tangent neither entry point raises. With \<open>phi = 0\<close> the
  effective-medium entry point raises \<open>ZeroDivisionError\<close>: \<open>alpha * f.rho / phi\<close> on line 87
  divides two Python floats, where the divisions beside it have an array operand and
  give infinities. With \<open>sigma = -10 ^ 200\<close> it raises \<open>OverflowError\<close>: \<open>sigma**2.0\<close> on line
  85 is a power of Python floats.
\<close>

theorem JCA_phi_zero_raises:
  "JCA module_globals (g_freq module_globals) 0.01 0 15000 1.01 (87.4 / 10 ^ 6) (196 / 10 ^ 6)
     = Inl ZeroDivisionError
   \<and> JCA module_globals (g_freq module_globals) 0.01 0.99 (- (10 ^ 200)) 1.01 (87.4 / 10 ^ 6)
       (196 / 10 ^ 6)
     = Inl OverflowError"
proof -
  obtain fl where fl: "Fluid default_args = Inr fl"
    by (rule Fluid_default_obtain)
  have "rho_c_JCA (g_freq module_globals) 0 15000 1.01 (87.4 / 10 ^ 6) (196 / 10 ^ 6)
          default_args = Inl ZeroDivisionError"
    using fl typical_bounds(2-4) by (rule rho_c_JCA_phi0)
  then have z: "JCA module_globals (g_freq module_globals) 0.01 0 15000 1.01 (87.4 / 10 ^ 6)
                  (196 / 10 ^ 6) = Inl ZeroDivisionError"
    by (simp add: JCA_def)
  have "(10::real) ^ 155 \<le> \<bar>- (10 ^ 200)\<bar>" by simp
  with fl have "rho_c_JCA (g_freq module_globals) 0.99 (- (10 ^ 200)) 1.01 (87.4 / 10 ^ 6)
          (196 / 10 ^ 6) default_args = Inl OverflowError"
    by (rule rho_c_JCA_overflow)
  then have o: "JCA module_globals (g_freq module_globals) 0.01 0.99 (- (10 ^ 200)) 1.01
                  (87.4 / 10 ^ 6) (196 / 10 ^ 6) = Inl OverflowError"
    by (simp add: JCA_def)
  from z o show ?thesis by (rule conjI)
qed


text \<open>
  C10 (upper bound). Whenever the conversion returns, every entry is at most 1, being
  \<open>1 - |R|\<^sup>2\<close>; the same holds for both entry points, which end in the conversion.
  Negative entries do occur: with \<open>k d = \<pi>/4\<close> and the non-passive \<open>z = -j\<close> the
  layer's input impedance is \<open>-1\<close>, \<open>|R| > 1\<close>, and the entry is negative.
\<close>

theorem absorption_at_most_one:
  "(alpha_from_dkz g d k z = Inr a \<longrightarrow> (\<forall>x \<in> set a. x \<le> 1))
   \<and> (DBM g f d sigma = Inr a \<longrightarrow> (\<forall>x \<in> set a. x \<le> 1))
   \<and> (JCA g f d phi sigma tort v_length t_length = Inr a \<longrightarrow> (\<forall>x \<in> set a. x \<le> 1))
   \<and> (\<exists>b. alpha_from_dkz module_globals 1 [complex_of_real pi / 4] [- \<i>] = Inr [b] \<and> b < 0)"
proof -
  have A: "\<forall>x \<in> set a'. x \<le> 1" if "alpha_from_dkz g' d' k' z' = Inr a'" for g' d' k' z' a'
    using that by (auto simp add: alpha_from_dkz_def split: sum.splits)
  have D: "\<forall>x \<in> set a. x \<le> 1" if "DBM g f d sigma = Inr a"
    using that A by (auto simp add: DBM_def split: sum.splits)
  have J: "\<forall>x \<in> set a. x \<le> 1" if "JCA g f d phi sigma tort v_length t_length = Inr a"
    using that A by (auto simp add: JCA_def split: sum.splits prod.splits)
  have N: "\<exists>b. alpha_from_dkz module_globals 1 [complex_of_real pi / 4] [- \<i>] = Inr [b] \<and> b < 0"
    by (rule exI [of _ "1 - (417.059 / 415.059) ^ 2"]) (simp add: alpha_from_dkz_nonpassive)
  from A D J N show ?thesis by blast
qed

theorem absorption_at_most_one_witness:
  "alpha_from_dkz module_globals 1 [complex_of_real pi / 4] [- \<i>]
     = Inr [1 - (417.059 / 415.059) ^ 2]
   \<and> 1 - (417.059 / 415.059) ^ 2 \<le> (1::real)"
proof -
  have e: "alpha_from_dkz module_globals 1 [complex_of_real pi / 4] [- \<i>]
             = Inr [1 - (417.059 / 415.059) ^ 2]"
    by (rule alpha_from_dkz_nonpassive)
  have all: "\<forall>x \<in> set [1 - (417.059 / 415.059) ^ 2 :: real]. x \<le> 1"
    by (rule absorption_at_most_one [THEN conjunct1, THEN mp, OF e])
  have mem: "1 - (417.059 / 415.059) ^ 2 \<in> set [1 - (417.059 / 415.059) ^ 2 :: real]"
    by simp
  have le: "1 - (417.059 / 415.059) ^ 2 \<le> (1::real)"
    by (rule bspec [OF all mem])
  from e le show ?thesis by (rule conjI)
qed

end
